theory Spec2Isabelle
  imports Complex_Main
begin

section \<open>Python strings and values\<close>

text \<open>
  Strings are byte strings (\<open>char list\<close>). \<open>lower\<close> and \<open>upper\<close> map the ASCII letters
  only, which is what \<open>str.lower\<close> and \<open>str.upper\<close> do on ASCII text; every literal
  pattern of the source is ASCII.
\<close>

definition lower_char :: "char \<Rightarrow> char" where
  "lower_char c =
     (case map_of (zip ''ABCDEFGHIJKLMNOPQRSTUVWXYZ'' ''abcdefghijklmnopqrstuvwxyz'') c of
        None \<Rightarrow> c | Some d \<Rightarrow> d)"

definition upper_char :: "char \<Rightarrow> char" where
  "upper_char c =
     (case map_of (zip ''abcdefghijklmnopqrstuvwxyz'' ''ABCDEFGHIJKLMNOPQRSTUVWXYZ'') c of
        None \<Rightarrow> c | Some d \<Rightarrow> d)"

definition lower :: "string \<Rightarrow> string" where
  "lower s = map lower_char s"

definition upper :: "string \<Rightarrow> string" where
  "upper s = map upper_char s"

text \<open>\<open>s.startswith(p)\<close>.\<close>

fun startswith :: "string \<Rightarrow> string \<Rightarrow> bool" where
  "startswith s [] = True"
| "startswith [] (p # ps) = False"
| "startswith (c # cs) (p # ps) = (c = p \<and> startswith cs ps)"

text \<open>\<open>sub in s\<close> on two strings: \<open>sub\<close> occurs in \<open>s\<close> as a contiguous block.\<close>

fun str_in :: "string \<Rightarrow> string \<Rightarrow> bool" where
  "str_in sub [] = (sub = [])"
| "str_in sub (c # cs) = (startswith (c # cs) sub \<or> str_in sub cs)"

text \<open>\<open>any(p in s for p in ps)\<close>.\<close>

definition any_in :: "string list \<Rightarrow> string \<Rightarrow> bool" where
  "any_in ps s = list_ex (\<lambda>p. str_in p s) ps"

text \<open>\<open>':' in s\<close>, \<open>s.split(':')[-1]\<close>, \<open>s.split(':', 1)[1]\<close> and \<open>s.split(':', 1)[0]\<close>
  (the last two are only used where \<open>':' in s\<close> holds).\<close>

definition has_colon :: "string \<Rightarrow> bool" where
  "has_colon s = (CHR '':'' \<in> set s)"

definition after_last_colon :: "string \<Rightarrow> string" where
  "after_last_colon s = rev (takeWhile (\<lambda>c. c \<noteq> CHR '':'') (rev s))"

definition after_first_colon :: "string \<Rightarrow> string" where
  "after_first_colon s = tl (dropWhile (\<lambda>c. c \<noteq> CHR '':'') s)"

definition before_first_colon :: "string \<Rightarrow> string" where
  "before_first_colon s = takeWhile (\<lambda>c. c \<noteq> CHR '':'') s"

text \<open>\<open>str(n)\<close> for a non-negative integer.\<close>

fun show_nat :: "nat \<Rightarrow> string" where
  "show_nat n =
     (if n < 10 then [''0123456789'' ! n]
      else show_nat (n div 10) @ [''0123456789'' ! (n mod 10)])"

text \<open>\<open>sep.join(xs)\<close> on strings.\<close>

fun join :: "string \<Rightarrow> string list \<Rightarrow> string" where
  "join sep [] = []"
| "join sep [x] = x"
| "join sep (x # y # ys) = x @ sep @ join sep (y # ys)"

text \<open>
  The values a \<open>Dict[str, Any]\<close> of the source can hold, as far as the modelled code
  inspects them. A dictionary is an association list in insertion order.
\<close>

datatype pyval =
    PNone
  | PBool bool
  | PInt int
  | PStr string
  | PList "pyval list"
  | PDict "(string \<times> pyval) list"

type_synonym pydict = "(string \<times> pyval) list"

fun type_name :: "pyval \<Rightarrow> string" where
  "type_name PNone = ''NoneType''"
| "type_name (PBool _) = ''bool''"
| "type_name (PInt _) = ''int''"
| "type_name (PStr _) = ''str''"
| "type_name (PList _) = ''list''"
| "type_name (PDict _) = ''dict''"

text \<open>The single quote character, for the messages below.\<close>

definition apostrophe :: string where
  "apostrophe = [CHR 0x27]"

text \<open>Exceptions carry the text that \<open>str(e)\<close> gives.\<close>

datatype exn =
    AttributeError string
  | TypeError string
  | ValueError string
  | OtherError string

fun str_exn :: "exn \<Rightarrow> string" where
  "str_exn (AttributeError m) = m"
| "str_exn (TypeError m) = m"
| "str_exn (ValueError m) = m"
| "str_exn (OtherError m) = m"

text \<open>The AttributeError of a method call on a value that has no such method.\<close>

definition no_attribute :: "pyval \<Rightarrow> string \<Rightarrow> exn" where
  "no_attribute v name =
     AttributeError (apostrophe @ type_name v @ apostrophe @ '' object has no attribute ''
                       @ apostrophe @ name @ apostrophe)"

text \<open>\<open>d.get(k)\<close> (None when absent) and \<open>d.get(k, default)\<close>.\<close>

definition dict_get :: "pydict \<Rightarrow> string \<Rightarrow> pyval" where
  "dict_get d k = (case map_of d k of None \<Rightarrow> PNone | Some v \<Rightarrow> v)"

definition dict_get_default :: "pydict \<Rightarrow> string \<Rightarrow> pyval \<Rightarrow> pyval" where
  "dict_get_default d k dflt = (case map_of d k of None \<Rightarrow> dflt | Some v \<Rightarrow> v)"

text \<open>\<open>v.get(k, default)\<close> on an arbitrary value: only a dict has the method.\<close>

fun val_get_default :: "pyval \<Rightarrow> string \<Rightarrow> pyval \<Rightarrow> exn + pyval" where
  "val_get_default (PDict d) k dflt = Inr (dict_get_default d k dflt)"
| "val_get_default v k dflt = Inl (no_attribute v ''get'')"

text \<open>\<open>for x in v\<close>: the items a value iterates over.\<close>

fun py_iter :: "pyval \<Rightarrow> exn + pyval list" where
  "py_iter (PList xs) = Inr xs"
| "py_iter (PStr s) = Inr (map (\<lambda>c. PStr [c]) s)"
| "py_iter (PDict d) = Inr (map (\<lambda>kv. PStr (fst kv)) d)"
| "py_iter v =
     Inl (TypeError (apostrophe @ type_name v @ apostrophe @ '' object is not iterable''))"

text \<open>\<open>v in s\<close> for a string \<open>s\<close>: the left operand must be a string.\<close>

fun val_in_str :: "pyval \<Rightarrow> string \<Rightarrow> exn + bool" where
  "val_in_str (PStr c) s = Inr (str_in c s)"
| "val_in_str v s =
     Inl (TypeError (apostrophe @ ''in <string>'' @ apostrophe
                       @ '' requires string as left operand, not '' @ type_name v))"

text \<open>\<open>', '.join(vs)\<close> on a list of values: every item must be a string.\<close>

fun join_vals :: "nat \<Rightarrow> pyval list \<Rightarrow> exn + string list" where
  "join_vals i [] = Inr []"
| "join_vals i (PStr s # vs) =
     (case join_vals (Suc i) vs of Inl e \<Rightarrow> Inl e | Inr ss \<Rightarrow> Inr (s # ss))"
| "join_vals i (v # vs) =
     Inl (TypeError (''sequence item '' @ show_nat i @ '': expected str instance, ''
                       @ type_name v @ '' found''))"

definition comma_join :: "pyval list \<Rightarrow> exn + string" where
  "comma_join vs = (case join_vals 0 vs of Inl e \<Rightarrow> Inl e | Inr ss \<Rightarrow> Inr (join '', '' ss))"

section \<open>Rule evaluator (rule\_evaluator.py)\<close>

text \<open>A rule result: the dictionary \<open>rule_result\<close> of \<open>evaluate_rule\<close>.\<close>

record rule_result =
  rule_code :: pyval
  rule_label :: pyval
  rule_type :: pyval
  status :: string
  message :: string
  details :: pydict

text \<open>What one of the \<open>_evaluate_*\<close> methods returns: \<open>status\<close>, \<open>message\<close> and,
  where the method sets it, \<open>details\<close>.\<close>

record outcome =
  o_status :: string
  o_message :: string
  o_details :: "pydict option"

text \<open>\<open>rule_result.update(outcome)\<close>.\<close>

definition update_result :: "rule_result \<Rightarrow> outcome \<Rightarrow> rule_result" where
  "update_result r out =
     (let r1 = r\<lparr>status := o_status out, message := o_message out\<rparr>
      in case o_details out of None \<Rightarrow> r1 | Some d \<Rightarrow> r1\<lparr>details := d\<rparr>)"

text \<open>
  The inner loop of \<open>_evaluate_existence_rule\<close> over \<open>facts.keys()\<close>. Python parses the
  condition as \<open>(concept in fact_name or concept == fact_name.split(':')[-1])
  if ':' in fact_name else concept == fact_name\<close>.
\<close>

fun concept_found :: "pyval \<Rightarrow> string list \<Rightarrow> exn + bool" where
  "concept_found concept [] = Inr False"
| "concept_found concept (fact_name # rest) =
     (if has_colon fact_name then
        (case val_in_str concept fact_name of
           Inl e \<Rightarrow> Inl e
         | Inr True \<Rightarrow> Inr True
         | Inr False \<Rightarrow>
             if concept = PStr (after_last_colon fact_name) then Inr True
             else concept_found concept rest)
      else if concept = PStr fact_name then Inr True
      else concept_found concept rest)"

text \<open>The outer loop: the concepts that were not found, in order.\<close>

fun missing_concepts :: "pyval list \<Rightarrow> string list \<Rightarrow> exn + pyval list" where
  "missing_concepts [] fact_names = Inr []"
| "missing_concepts (concept # rest) fact_names =
     (case concept_found concept fact_names of
        Inl e \<Rightarrow> Inl e
      | Inr found \<Rightarrow>
          (case missing_concepts rest fact_names of
             Inl e \<Rightarrow> Inl e
           | Inr ms \<Rightarrow> Inr (if found then ms else concept # ms)))"

definition evaluate_existence_rule :: "pydict \<Rightarrow> pydict \<Rightarrow> exn + outcome" where
  "evaluate_existence_rule rule facts =
     (let parsed_expr = dict_get_default rule ''parsed_expression'' (PDict [])
      in case val_get_default parsed_expr ''concepts'' (PList []) of
           Inl e \<Rightarrow> Inl e
         | Inr required_concepts \<Rightarrow>
             (case py_iter required_concepts of
                Inl e \<Rightarrow> Inl e
              | Inr cs \<Rightarrow>
                  (case missing_concepts cs (map fst facts) of
                     Inl e \<Rightarrow> Inl e
                   | Inr ms \<Rightarrow>
                       if ms = [] then
                         Inr \<lparr>o_status = ''passed'', o_message = ''All required concepts found'',
                              o_details = None\<rparr>
                       else
                         (case comma_join ms of
                            Inl e \<Rightarrow> Inl e
                          | Inr txt \<Rightarrow>
                              Inr \<lparr>o_status = ''failed'',
                                   o_message = ''Missing required concepts: '' @ txt,
                                   o_details = Some [(''missing_concepts'', PList ms)]\<rparr>))))"

definition evaluate_calculation_rule :: "pydict \<Rightarrow> pydict \<Rightarrow> exn + outcome" where
  "evaluate_calculation_rule rule facts =
     Inr \<lparr>o_status = ''skipped'',
          o_message = ''Calculation rule evaluation not yet implemented'',
          o_details = Some [(''rule_type'', PStr ''calculation'')]\<rparr>"

definition evaluate_consistency_rule :: "pydict \<Rightarrow> pydict \<Rightarrow> exn + outcome" where
  "evaluate_consistency_rule rule facts =
     Inr \<lparr>o_status = ''skipped'',
          o_message = ''Consistency rule evaluation not yet implemented'',
          o_details = Some [(''rule_type'', PStr ''consistency'')]\<rparr>"

definition evaluate_conditional_rule :: "pydict \<Rightarrow> pydict \<Rightarrow> exn + outcome" where
  "evaluate_conditional_rule rule facts =
     Inr \<lparr>o_status = ''skipped'',
          o_message = ''Conditional rule evaluation not yet implemented'',
          o_details = Some [(''rule_type'', PStr ''conditional'')]\<rparr>"

definition evaluate_general_rule :: "pydict \<Rightarrow> pydict \<Rightarrow> exn + outcome" where
  "evaluate_general_rule rule facts =
     Inr \<lparr>o_status = ''passed'',
          o_message = ''General rule passed (placeholder)'',
          o_details = Some [(''rule_type'', PStr ''general'')]\<rparr>"

text \<open>The body of the \<open>try\<close> block of \<open>evaluate_rule\<close>: the dispatch on
  \<open>execution_method\<close>.\<close>

definition dispatch_rule :: "pydict \<Rightarrow> pydict \<Rightarrow> exn + outcome" where
  "dispatch_rule rule facts =
     (let execution_method = dict_get_default rule ''execution_method'' (PStr ''general_validation'')
      in if execution_method = PStr ''existence_check'' then evaluate_existence_rule rule facts
         else if execution_method = PStr ''calculation_check'' then evaluate_calculation_rule rule facts
         else if execution_method = PStr ''consistency_check'' then evaluate_consistency_rule rule facts
         else if execution_method = PStr ''conditional_check'' then evaluate_conditional_rule rule facts
         else evaluate_general_rule rule facts)"

definition initial_result :: "pydict \<Rightarrow> rule_result" where
  "initial_result rule =
     \<lparr>rule_code = dict_get rule ''RuleCode'',
      rule_label = dict_get rule ''RuleLabel'',
      rule_type = dict_get rule ''RuleType'',
      status = ''skipped'',
      message = '''',
      details = []\<rparr>"

text \<open>\<open>evaluate_rule\<close>: the \<open>except Exception\<close> branch turns an exception of the dispatch
  into the status \<open>error\<close>; the third argument \<open>concept_resolutions\<close> of the source is
  read by none of the methods.\<close>

definition evaluate_rule :: "pydict \<Rightarrow> pydict \<Rightarrow> rule_result" where
  "evaluate_rule rule facts =
     (case dispatch_rule rule facts of
        Inr out \<Rightarrow> update_result (initial_result rule) out
      | Inl e \<Rightarrow> (initial_result rule)
                  \<lparr>status := ''error'',
                   message := ''Rule evaluation failed: '' @ str_exn e\<rparr>)"

text \<open>The evaluation loop of \<open>validate_facts_against_rules\<close> (rule\_engine.py) over the
  applicable rules: one result per rule, in order.\<close>

fun evaluate_rules :: "pydict list \<Rightarrow> pydict \<Rightarrow> rule_result list" where
  "evaluate_rules [] facts = []"
| "evaluate_rules (rule # rest) facts = evaluate_rule rule facts # evaluate_rules rest facts"

section \<open>Rule parser (rule\_parser.py)\<close>

text \<open>\<open>_determine_execution_method(rule_type, expression)\<close>; the argument \<open>rule_type\<close> is
  written \<open>rtype\<close>.\<close>

definition determine_execution_method :: "string \<Rightarrow> string \<Rightarrow> string" where
  "determine_execution_method rtype expression =
     (if str_in ''calculation'' rtype \<or> str_in ''sum('' (lower expression)
        then ''calculation_check''
      else if str_in ''existence'' rtype \<or> str_in ''exists('' (lower expression)
        then ''existence_check''
      else if str_in ''consistency'' rtype \<or> any_in [''='', ''>'', ''<''] expression
        then ''consistency_check''
      else if str_in ''conditional'' rtype \<or> str_in ''if'' (lower expression)
        then ''conditional_check''
      else ''general_validation'')"

text \<open>The execution method that \<open>process_rule\<close> stores for a raw rule with the given
  \<open>RuleType\<close> and \<open>Expression\<close> texts: the declared type is lower-cased first.\<close>

definition process_rule_execution_method :: "string \<Rightarrow> string \<Rightarrow> string" where
  "process_rule_execution_method declared_type expression =
     determine_execution_method (lower declared_type) expression"

section \<open>External validator adapter (arelle\_runner.py)\<close>

text \<open>\<open>d[k] = v\<close> and \<open>d.update(e)\<close> on insertion-ordered dictionaries.\<close>

fun dict_set :: "('k \<times> 'v) list \<Rightarrow> 'k \<Rightarrow> 'v \<Rightarrow> ('k \<times> 'v) list" where
  "dict_set [] k v = [(k, v)]"
| "dict_set ((k', v') # d) k v = (if k' = k then (k, v) # d else (k', v') # dict_set d k v)"

fun dict_update :: "pydict \<Rightarrow> pydict \<Rightarrow> pydict" where
  "dict_update d [] = d"
| "dict_update d ((k, v) # e) = dict_update (dict_set d k v) e"

text \<open>How \<open>subprocess.run(cmd, ..., timeout=120)\<close> ends: it returns the exit code with
  the two output texts, or raises \<open>TimeoutExpired\<close>, or raises something else.\<close>

datatype run_outcome =
    Returned int string string
  | TimeoutExpired
  | Raised exn

text \<open>
  \<open>_execute_arelle_validation\<close>, given how the subprocess ends. The parser of the output
  texts (\<open>_parse_arelle_output\<close>) and the clock are parameters: \<open>parse\<close> gives the
  dictionary that is spread into the result of a completed run.
\<close>

definition execute_arelle_validation ::
    "(string \<Rightarrow> string \<Rightarrow> int \<Rightarrow> pydict) \<Rightarrow> string \<Rightarrow> run_outcome \<Rightarrow> pydict" where
  "execute_arelle_validation parse now outcome =
     (case outcome of
        Returned return_code stdout stderr \<Rightarrow>
          dict_update
            [(''status'', PStr ''completed''),
             (''return_code'', PInt return_code),
             (''execution_time'', PStr now),
             (''validation_successful'', PBool (return_code = 0))]
            (parse stdout stderr return_code)
      | TimeoutExpired \<Rightarrow>
          [(''status'', PStr ''timeout''),
           (''error'', PStr ''Arelle validation timed out after 120 seconds'')]
      | Raised e \<Rightarrow>
          [(''status'', PStr ''error''), (''error'', PStr (str_exn e))])"

text \<open>Step 3 of \<open>validate_with_arelle\<close>: the result of the execution is merged into the
  dictionary \<open>validation_result\<close> built so far, which is returned as the stage result.\<close>

definition merge_arelle_result :: "pydict \<Rightarrow> pydict \<Rightarrow> pydict" where
  "merge_arelle_result validation_result arelle_result =
     dict_update validation_result arelle_result"

section \<open>Result synthesizer (hybrid\_validation\_engine.py)\<close>

text \<open>A Python float: a finite value, an infinity or not-a-number; \<open>x >= k\<close> for an
  integer threshold \<open>k\<close>.\<close>

datatype pyfloat = Finite rat | PosInf | NegInf | NaN

fun float_ge :: "pyfloat \<Rightarrow> rat \<Rightarrow> bool" where
  "float_ge (Finite x) k = (k \<le> x)"
| "float_ge PosInf k = True"
| "float_ge NegInf k = False"
| "float_ge NaN k = False"

text \<open>Running a function that may raise over a list, stopping at the first exception.\<close>

fun map_exn :: "('a \<Rightarrow> exn + 'b) \<Rightarrow> 'a list \<Rightarrow> exn + 'b list" where
  "map_exn f [] = Inr []"
| "map_exn f (x # xs) =
     (case f x of
        Inl e \<Rightarrow> Inl e
      | Inr y \<Rightarrow> (case map_exn f xs of Inl e \<Rightarrow> Inl e | Inr ys \<Rightarrow> Inr (y # ys)))"

text \<open>The stages are a dictionary from stage name to stage result; \<open>validate_hybrid\<close>
  stores a dictionary for every stage. \<open>stages.get(name, {})\<close>:\<close>

type_synonym stages = "(string \<times> pydict) list"

definition stage_get :: "stages \<Rightarrow> string \<Rightarrow> pydict" where
  "stage_get stages name = (case map_of stages name of None \<Rightarrow> [] | Some d \<Rightarrow> d)"

text \<open>The entry appended to \<open>validation_results\<close> for one error or warning reported by
  the external validator.\<close>

fun arelle_issue :: "string \<Rightarrow> string \<Rightarrow> string \<Rightarrow> pyval \<Rightarrow> exn + pyval" where
  "arelle_issue issue_type severity default_message (PDict d) =
     Inr (PDict [(''type'', PStr issue_type),
                 (''severity'', PStr severity),
                 (''message'', dict_get_default d ''message'' (PStr default_message)),
                 (''category'', dict_get_default d ''category'' (PStr ''validation'')),
                 (''source'', PStr ''arelle_validation''),
                 (''line_number'', dict_get d ''line_number''),
                 (''fact_name'', dict_get_default d ''fact_name'' (PStr ''unknown''))])"
| "arelle_issue issue_type severity default_message v = Inl (no_attribute v ''get'')"

text \<open>The block guarded by \<open>arelle_results.get('status') == 'completed'\<close>: the issues
  taken from the external validator, the errors first, then the warnings.\<close>

definition arelle_issues :: "pydict \<Rightarrow> exn + pyval list \<times> pyval list" where
  "arelle_issues arelle_results =
     (if dict_get arelle_results ''status'' = PStr ''completed'' then
        (case py_iter (dict_get_default arelle_results ''errors'' (PList [])) of
           Inl e \<Rightarrow> Inl e
         | Inr arelle_errors \<Rightarrow>
             (case map_exn (arelle_issue ''business_rule_violation'' ''error''
                              ''Business rule validation error'') arelle_errors of
                Inl e \<Rightarrow> Inl e
              | Inr error_issues \<Rightarrow>
                  (case py_iter (dict_get_default arelle_results ''warnings'' (PList [])) of
                     Inl e \<Rightarrow> Inl e
                   | Inr arelle_warnings \<Rightarrow>
                       (case map_exn (arelle_issue ''business_rule_warning'' ''warning''
                                        ''Business rule validation warning'') arelle_warnings of
                          Inl e \<Rightarrow> Inl e
                        | Inr warning_issues \<Rightarrow> Inr (error_issues, warning_issues)))))
      else Inr ([], []))"

text \<open>The block guarded by \<open>'validation_results' in dmp_validation\<close>: the results of the
  dictionary validation with the number of those of severity error and of severity
  warning.\<close>

definition dmp_issues :: "pydict \<Rightarrow> exn + pyval list \<times> nat \<times> nat" where
  "dmp_issues dmp_validation =
     (case map_of dmp_validation ''validation_results'' of
        None \<Rightarrow> Inr ([], 0, 0)
      | Some v \<Rightarrow>
          (case py_iter v of
             Inl e \<Rightarrow> Inl e
           | Inr dmp_results \<Rightarrow>
               (case map_exn (\<lambda>r. val_get_default r ''severity'' PNone) dmp_results of
                  Inl e \<Rightarrow> Inl e
                | Inr severities \<Rightarrow>
                    Inr (dmp_results,
                         length (filter (\<lambda>sv. sv = PStr ''error'') severities),
                         length (filter (\<lambda>sv. sv = PStr ''warning'') severities)))))"

text \<open>\<open>float(dmp_resolution.get('resolution_rate', '0%').replace('%', ''))\<close>; the builtin
  \<open>float\<close> on texts is the parameter \<open>py_float\<close>.\<close>

definition resolution_rate_value :: "(string \<Rightarrow> exn + pyfloat) \<Rightarrow> stages \<Rightarrow> exn + pyfloat" where
  "resolution_rate_value py_float stages =
     (case dict_get_default (stage_get stages ''dmp_concept_resolution'') ''resolution_rate''
             (PStr ''0%'') of
        PStr txt \<Rightarrow> py_float (filter (\<lambda>c. c \<noteq> CHR ''%'') txt)
      | v \<Rightarrow> Inl (no_attribute v ''replace''))"

record synthesis =
  stage_summary :: pydict
  validation_results :: "pyval list"
  total_errors :: nat
  total_warnings :: nat
  overall_status :: string
  recommendation :: string

text \<open>The chain that determines the overall status and the recommendation.\<close>

definition status_and_recommendation :: "nat \<Rightarrow> nat \<Rightarrow> pyfloat \<Rightarrow> string \<times> string" where
  "status_and_recommendation errors warnings resolution_rate =
     (if errors > 0 then
        (''VALIDATION_FAILED'',
         ''Validation failed with '' @ show_nat errors @ '' errors - review and fix issues'')
      else if warnings > 0 then
        (''VALIDATION_WARNINGS'',
         ''Validation completed with '' @ show_nat warnings @ '' warnings - review recommended'')
      else if float_ge resolution_rate 90 then
        (''EXCELLENT'', ''Outstanding DMP concept coverage - validation highly reliable'')
      else if float_ge resolution_rate 75 then
        (''VERY_GOOD'', ''Very good DMP concept coverage - validation reliable'')
      else if float_ge resolution_rate 60 then
        (''GOOD'', ''Good DMP concept coverage - most concepts validated'')
      else if float_ge resolution_rate 40 then
        (''PARTIAL'', ''Partial coverage - consider updating DMP database or XBRL file'')
      else
        (''POOR'', ''Low coverage - XBRL file may not be compatible with DMP 4.0''))"

text \<open>
  \<open>_synthesize_results\<close>, up to the overall status. The fields \<open>timestamp\<close>,
  \<open>key_metrics\<close> and \<open>hybrid_advantages\<close> of the source are computed after the status
  from the same inputs, raise nothing on stages that are dictionaries, and are left out.
\<close>

definition synthesize_results :: "(string \<Rightarrow> exn + pyfloat) \<Rightarrow> stages \<Rightarrow> exn + synthesis" where
  "synthesize_results py_float stages =
     (let summary = map (\<lambda>(stage_name, stage_data).
                          (stage_name, dict_get_default stage_data ''status'' (PStr ''unknown'')))
                        stages
      in case arelle_issues (stage_get stages ''arelle_validation'') of
           Inl e \<Rightarrow> Inl e
         | Inr (error_issues, warning_issues) \<Rightarrow>
             (case dmp_issues (stage_get stages ''dmp_validation'') of
                Inl e \<Rightarrow> Inl e
              | Inr (dmp_results, dmp_errors, dmp_warnings) \<Rightarrow>
                  (case resolution_rate_value py_float stages of
                     Inl e \<Rightarrow> Inl e
                   | Inr resolution_rate \<Rightarrow>
                       (let errors = length error_issues + dmp_errors;
                            warnings = length warning_issues + dmp_warnings;
                            sr = status_and_recommendation errors warnings resolution_rate
                        in Inr \<lparr>stage_summary = summary,
                                validation_results = error_issues @ warning_issues @ dmp_results,
                                total_errors = errors,
                                total_warnings = warnings,
                                overall_status = fst sr,
                                recommendation = snd sr\<rparr>))))"

text \<open>The values of the builtin \<open>float\<close> on the texts that occur in the examples of this
  theory; it instantiates the parameter \<open>py_float\<close> there and nowhere else.\<close>

definition float_table :: "string \<Rightarrow> exn + pyfloat" where
  "float_table txt =
     (if txt = ''0'' then Inr (Finite 0)
      else if txt = ''100.0'' then Inr (Finite 100)
      else if txt = ''87.5'' then Inr (Finite (175 / 2))
      else Inl (ValueError (''could not convert string to float: '' @ txt)))"

text \<open>Example stages: the dictionary resolves every fact and reports nothing, the external
  validator runs to completion and reports one error.\<close>

definition example_stages_completed :: stages where
  "example_stages_completed =
     [(''fact_parsing'', [(''status'', PStr ''completed''), (''total_facts'', PInt 2)]),
      (''dmp_concept_resolution'',
         [(''status'', PStr ''completed''), (''resolution_rate'', PStr ''87.5%'')]),
      (''dmp_validation'', [(''status'', PStr ''completed''), (''validation_results'', PList [])]),
      (''arelle_validation'',
         [(''status'', PStr ''completed''),
          (''errors'', PList [PDict [(''message'', PStr ''[ERROR] assertion failed''),
                                     (''category'', PStr ''formula'')]]),
          (''warnings'', PList [])])]"

text \<open>Example stages: the same dictionary stages with full coverage, and an external
  validator that timed out.\<close>

definition example_stages_timeout :: stages where
  "example_stages_timeout =
     [(''fact_parsing'', [(''status'', PStr ''completed''), (''total_facts'', PInt 2)]),
      (''dmp_concept_resolution'',
         [(''status'', PStr ''completed''), (''resolution_rate'', PStr ''100.0%'')]),
      (''dmp_validation'', [(''status'', PStr ''completed''), (''validation_results'', PList [])]),
      (''arelle_validation'',
         merge_arelle_result
           [(''method'', PStr ''arelle_fallback''), (''status'', PStr ''running'')]
           (execute_arelle_validation (\<lambda>stdout stderr return_code. []) [] TimeoutExpired))]"

section \<open>Architecture detector (hybrid\_validation\_engine.py)\<close>

text \<open>An element of a parsed document: its attributes in document order and its children.
  \<open>iter\<close> is \<open>Element.iter()\<close>: the element itself, then its descendants in document
  order.\<close>

datatype element = Element (attrib: "(string \<times> string) list") (children: "element list")

fun iter :: "element \<Rightarrow> element list" where
  "iter (Element a cs) = Element a cs # concat (map iter cs)"

text \<open>\<open>s.replace(sub, '')\<close>: every occurrence of \<open>sub\<close> is removed, from left to right.\<close>

function remove_all :: "string \<Rightarrow> string \<Rightarrow> string" where
  "remove_all sub s =
     (if s = [] then []
      else if sub \<noteq> [] \<and> startswith s sub then remove_all sub (drop (length sub) s)
      else hd s # remove_all sub (tl s))"
  by pat_completeness auto
termination
  by (relation "measure (\<lambda>(sub, s). length s)") auto

text \<open>The loop over the attributes of one element that fills the dictionary
  \<open>namespaces\<close> (prefix to namespace URI).\<close>

fun add_namespaces ::
    "(string \<times> string) list \<Rightarrow> (string \<times> string) list \<Rightarrow> (string \<times> string) list" where
  "add_namespaces namespaces [] = namespaces"
| "add_namespaces namespaces ((key, val) # rest) =
     (if startswith key ''xmlns:'' then
        add_namespaces (dict_set namespaces (remove_all ''xmlns:'' key) val) rest
      else if key = ''xmlns'' then add_namespaces (dict_set namespaces ''default'' val) rest
      else add_namespaces namespaces rest)"

text \<open>The scan of \<open>root.iter()\<close> that runs when the root declares no namespace; it stops
  after the element that brings the number of namespaces above 5.\<close>

fun scan_elements :: "(string \<times> string) list \<Rightarrow> element list \<Rightarrow> (string \<times> string) list" where
  "scan_elements namespaces [] = namespaces"
| "scan_elements namespaces (e # es) =
     (let namespaces' = add_namespaces namespaces (attrib e)
      in if length namespaces' > 5 then namespaces' else scan_elements namespaces' es)"

definition arch_1_0_filename_patterns :: "string list" where
  "arch_1_0_filename_patterns =
     [''finrep020400'', ''finrep9indgaap'', ''gb_finrep'', ''_2021-06-30_'', ''_2020'',
      ''fulltaxonomy3.0'', ''phase2'', ''dummylei'', ''_20201218'', ''finrep2.4'']"

definition arch_1_0_patterns :: "string list" where
  "arch_1_0_patterns =
     [''dpm/3.0'', ''eu/cr/3.0'', ''finrep/3.0'', ''corep/3.0'', ''finrep/2.4'',
      ''gb_finrep'', ''finrep020400'', ''finrep9indgaap'', ''phase2'']"

definition arch_2_0_patterns :: "string list" where
  "arch_2_0_patterns =
     [''dpm/4.0'', ''eu/cr/4.0'', ''finrep/4.0'', ''corep/4.0'', ''eba_'', ''find_'',
      ''errata5'', ''taxo_package_4.0'']"

text \<open>The \<open>namespaces\<close> entries of the table \<open>ARCHITECTURES\<close>.\<close>

definition arch_1_0_namespaces :: "string list" where
  "arch_1_0_namespaces = [''xbrl/crr/dict/dpm/3.0'', ''eba.europa.eu/eu/cr/3.0'']"

definition arch_2_0_namespaces :: "string list" where
  "arch_2_0_namespaces = [''xbrl/dpm/4.0'', ''eba.europa.eu/eu/cr/4.0'']"

text \<open>
  The body of the \<open>try\<close> block of \<open>detect_architecture_version\<close>. The file system is a
  parameter: \<open>basename\<close> is \<open>os.path.basename\<close> and \<open>parse\<close> is
  \<open>ET.parse(path).getroot()\<close>, which raises on a missing or malformed document. The two
  nested loops over the namespace values return the same value at every hit, so each is
  written as one test over the values.
\<close>

definition detect_body ::
    "(string \<Rightarrow> string) \<Rightarrow> (string \<Rightarrow> exn + element) \<Rightarrow> string \<Rightarrow> exn + string" where
  "detect_body basename parse xbrl_path =
     (let filename = lower (basename xbrl_path)
      in if any_in arch_1_0_filename_patterns filename then Inr ''arch_1_0''
         else
           (case parse xbrl_path of
              Inl e \<Rightarrow> Inl e
            | Inr root_element \<Rightarrow>
                (let root_namespaces = add_namespaces [] (attrib root_element);
                     namespaces = (if root_namespaces = [] then scan_elements [] (iter root_element)
                                   else root_namespaces)
                 in if list_ex (\<lambda>namespace. any_in arch_1_0_patterns (lower namespace)
                                   \<or> any_in arch_1_0_namespaces namespace)
                               (map snd namespaces)
                      then Inr ''arch_1_0''
                    else if list_ex (\<lambda>namespace. any_in arch_2_0_patterns (lower namespace)
                                        \<or> any_in arch_2_0_namespaces namespace)
                                    (map snd namespaces)
                      then Inr ''arch_2_0''
                    else if list_ex (\<lambda>(prefix, namespace).
                                       startswith prefix ''eba_'' \<or> str_in ''eba'' (lower prefix))
                                    namespaces
                      then Inr ''arch_2_0''
                    else if any_in [''2021'', ''2020'', ''phase2'', ''fulltaxonomy3''] filename
                      then Inr ''arch_1_0''
                    else Inr ''arch_2_0'')))"

text \<open>\<open>detect_architecture_version\<close>: the \<open>except Exception\<close> branch returns
  \<open>unknown\<close>.\<close>

definition detect_architecture_version ::
    "(string \<Rightarrow> string) \<Rightarrow> (string \<Rightarrow> exn + element) \<Rightarrow> string \<Rightarrow> string" where
  "detect_architecture_version basename parse xbrl_path =
     (case detect_body basename parse xbrl_path of Inl e \<Rightarrow> ''unknown'' | Inr arch \<Rightarrow> arch)"

section \<open>Concept resolver (dmp\_concept\_resolver.py)\<close>

text \<open>
  The relational store is a collaborator. A column value is a text or NULL, a row is the
  list of its column values. The queries that the resolver sends are the constructors of
  \<open>query\<close>: each names its table first and then its parameters.
\<close>

type_synonym sqlval = "string option"

type_synonym row = "sqlval list"

datatype query =
    Probe string
      \<comment> \<open>\<open>SELECT TOP 1 * FROM [t]\<close>\<close>
  | ItemCodeEqOrLike string string string
      \<comment> \<open>\<open>SELECT TOP 1 Code, Label, 't' FROM t WHERE Code = ? OR Code LIKE ?\<close>\<close>
  | ItemCodeOrLabelLike string string string
      \<comment> \<open>\<open>SELECT TOP 1 Code, Label, 't' FROM t WHERE Code LIKE ? OR Label LIKE ?\<close>\<close>
  | ConceptCodeOrLabelEq string string string
      \<comment> \<open>\<open>SELECT ConceptCode, ConceptLabel, ConceptType, MetricCode FROM [t]
          WHERE ConceptCode = ? OR ConceptLabel = ?\<close>\<close>
  | ConceptCodeOrLabelLike string string string
      \<comment> \<open>the same columns, \<open>WHERE ConceptCode LIKE ? OR ConceptLabel LIKE ?\<close>\<close>
  | DataPointCodeOrLabelLike string string string
      \<comment> \<open>\<open>SELECT DataPointCode, DataPointLabel, 'DataPoint' as ConceptType FROM [t]
          WHERE DataPointCode LIKE ? OR DataPointLabel LIKE ?\<close>\<close>
  | ConceptCodeEq string string
      \<comment> \<open>the concept columns, \<open>WHERE ConceptCode = ?\<close>\<close>
  | ConceptCodeLike string string
      \<comment> \<open>the concept columns, \<open>WHERE ConceptCode LIKE ?\<close>\<close>
  | MemberCodeEq string string string
      \<comment> \<open>\<open>SELECT MemberCode, MemberXbrlCode, MemberLabel FROM [t]
          WHERE MemberCode = ? OR MemberXbrlCode = ?\<close>\<close>
  | MemberCodeLike string string string
      \<comment> \<open>\<open>SELECT TOP 1\<close> of the same columns,
          \<open>WHERE MemberCode LIKE ? OR MemberXbrlCode LIKE ?\<close>\<close>

text \<open>
  The store as the resolver sees it through the global \<open>dmp_db\<close>: \<open>connect\<close> is the
  exception that \<open>get_connection()\<close> or \<open>cursor()\<close> raises, if any; \<open>execute q\<close> is how
  \<open>cursor.execute(q)\<close> followed by \<open>fetchone()\<close> ends, with an exception or with the first
  row, if there is one; \<open>table_mappings\<close> is the dictionary of the queries manager.
\<close>

record store =
  connect :: "exn option"
  execute :: "query \<Rightarrow> exn + row option"
  table_mappings :: "(string \<times> string) list"

text \<open>\<open>get_actual_table_name\<close> and the test \<open>t in table_mappings.values()\<close>.\<close>

definition get_actual_table_name :: "store \<Rightarrow> string \<Rightarrow> string" where
  "get_actual_table_name st expected_name =
     (case map_of (table_mappings st) expected_name of None \<Rightarrow> expected_name | Some t \<Rightarrow> t)"

definition table_available :: "store \<Rightarrow> string \<Rightarrow> bool" where
  "table_available st t = (t \<in> set (map snd (table_mappings st)))"

text \<open>A query followed by \<open>if result:\<close>; a row of length 0 is falsy, like no row.\<close>

definition fetch :: "store \<Rightarrow> query \<Rightarrow> exn + row option" where
  "fetch st q =
     (case execute st q of
        Inl e \<Rightarrow> Inl e
      | Inr None \<Rightarrow> Inr None
      | Inr (Some r) \<Rightarrow> if r = [] then Inr None else Inr (Some r))"

text \<open>The dictionary that a strategy returns. The keys \<open>MemberXbrlCode\<close> and
  \<open>searchType\<close> exist only in the results of the member table.\<close>

record concept =
  ConceptCode :: sqlval
  ConceptLabel :: sqlval
  ConceptType :: sqlval
  MetricCode :: sqlval
  source :: string
  MemberXbrlCode :: "sqlval option"
  searchType :: "string option"

text \<open>\<open>getattr(result, name, result[i] if len(result) > i else '')\<close> for the column at
  position \<open>i\<close>.\<close>

definition col_or_empty :: "row \<Rightarrow> nat \<Rightarrow> sqlval" where
  "col_or_empty r i = (if i < length r then r ! i else Some [])"

text \<open>The result built from a non-empty row of the concept table, of the datapoint table
  and of the member table.\<close>

definition concept_of_row :: "row \<Rightarrow> concept" where
  "concept_of_row r =
     \<lparr>ConceptCode = r ! 0, ConceptLabel = col_or_empty r 1, ConceptType = col_or_empty r 2,
      MetricCode = col_or_empty r 3, source = ''tConcept'',
      MemberXbrlCode = None, searchType = None\<rparr>"

definition datapoint_of_row :: "row \<Rightarrow> concept" where
  "datapoint_of_row r =
     \<lparr>ConceptCode = r ! 0, ConceptLabel = col_or_empty r 1, ConceptType = Some ''DataPoint'',
      MetricCode = col_or_empty r 2, source = ''tDataPoint'',
      MemberXbrlCode = None, searchType = None\<rparr>"

definition member_of_row :: "row \<Rightarrow> string \<Rightarrow> concept" where
  "member_of_row r search_type =
     \<lparr>ConceptCode = r ! 0, ConceptLabel = col_or_empty r 2, ConceptType = Some ''Member'',
      MetricCode = Some [], source = ''tMember'',
      MemberXbrlCode = Some (col_or_empty r 1), searchType = Some search_type\<rparr>"

text \<open>The result built in the DMP 3.3 branches from \<open>result[0]\<close>, \<open>result[1]\<close>,
  \<open>result[2]\<close>; a shorter row raises IndexError there, which is \<open>None\<close> here.\<close>

definition item_of_row :: "row \<Rightarrow> string \<Rightarrow> concept option" where
  "item_of_row r table =
     (if length r < 3 then None
      else Some \<lparr>ConceptCode = r ! 0, ConceptLabel = r ! 1, ConceptType = r ! 2,
                 MetricCode = Some [], source = table,
                 MemberXbrlCode = None, searchType = None\<rparr>)"

datatype db_version = dmp_3_3 | dmp_4_0

text \<open>\<open>_detect_database_version\<close>: the probe of \<open>DimensionalItem\<close>, then of \<open>tConcept\<close>.\<close>

definition detect_database_version :: "store \<Rightarrow> db_version" where
  "detect_database_version st =
     (case execute st (Probe ''DimensionalItem'') of
        Inr found \<Rightarrow> dmp_3_3
      | Inl e \<Rightarrow>
          (case execute st (Probe ''tConcept'') of
             Inr found \<Rightarrow> dmp_4_0
           | Inl e' \<Rightarrow> dmp_3_3))"

text \<open>\<open>_clean_concept_name\<close>.\<close>

definition clean_concept_name :: "string \<Rightarrow> string" where
  "clean_concept_name concept_name =
     (if has_colon concept_name then after_first_colon concept_name else concept_name)"

definition like_pattern :: "string \<Rightarrow> string" where
  "like_pattern s = ''%'' @ s @ ''%''"

text \<open>
  \<open>_search_by_exact_match\<close>. In the DMP 3.3 branch the \<open>Item\<close> table is tried only when
  the query of \<open>DimensionalItem\<close> raises (or its row is too short); every exception that
  is left ends the strategy with \<open>None\<close>.
\<close>

definition search_by_exact_match :: "store \<Rightarrow> string \<Rightarrow> concept option" where
  "search_by_exact_match st concept_name =
     (case connect st of
        Some e \<Rightarrow> None
      | None \<Rightarrow>
          (case detect_database_version st of
             dmp_3_3 \<Rightarrow>
               (let item_fallback =
                      (case fetch st (ItemCodeEqOrLike ''Item'' concept_name
                                        (like_pattern concept_name)) of
                         Inl e \<Rightarrow> None
                       | Inr None \<Rightarrow> None
                       | Inr (Some r) \<Rightarrow> item_of_row r ''Item'')
                in case fetch st (ItemCodeEqOrLike ''DimensionalItem'' concept_name
                                    (like_pattern concept_name)) of
                     Inl e \<Rightarrow> item_fallback
                   | Inr None \<Rightarrow> None
                   | Inr (Some r) \<Rightarrow>
                       (case item_of_row r ''DimensionalItem'' of
                          Some c \<Rightarrow> Some c
                        | None \<Rightarrow> item_fallback))
           | dmp_4_0 \<Rightarrow>
               (let concept_table = get_actual_table_name st ''tConcept''
                in if table_available st concept_table then
                     (case fetch st (ConceptCodeOrLabelEq concept_table concept_name
                                       concept_name) of
                        Inl e \<Rightarrow> None
                      | Inr None \<Rightarrow> None
                      | Inr (Some r) \<Rightarrow> Some (concept_of_row r))
                   else None)))"

text \<open>\<open>_search_by_clean_name\<close>.\<close>

definition search_by_clean_name :: "store \<Rightarrow> string \<Rightarrow> concept option" where
  "search_by_clean_name st clean_name =
     (case connect st of
        Some e \<Rightarrow> None
      | None \<Rightarrow>
          (case detect_database_version st of
             dmp_3_3 \<Rightarrow>
               (let primary_item =
                      (case fetch st (ItemCodeOrLabelLike ''PrimaryItem''
                                        (like_pattern clean_name) (like_pattern clean_name)) of
                         Inl e \<Rightarrow> None
                       | Inr None \<Rightarrow> None
                       | Inr (Some r) \<Rightarrow> item_of_row r ''PrimaryItem'')
                in case fetch st (ItemCodeOrLabelLike ''DimensionalItem''
                                    (like_pattern clean_name) (like_pattern clean_name)) of
                     Inl e \<Rightarrow> primary_item
                   | Inr None \<Rightarrow> primary_item
                   | Inr (Some r) \<Rightarrow>
                       (case item_of_row r ''DimensionalItem'' of
                          Some c \<Rightarrow> Some c
                        | None \<Rightarrow> primary_item))
           | dmp_4_0 \<Rightarrow>
               (let concept_table = get_actual_table_name st ''tConcept'';
                    datapoint_table = get_actual_table_name st ''tDataPoint'';
                    in_datapoints =
                      (if table_available st datapoint_table then
                         (case fetch st (DataPointCodeOrLabelLike datapoint_table
                                           (like_pattern clean_name) (like_pattern clean_name)) of
                            Inl e \<Rightarrow> None
                          | Inr None \<Rightarrow> None
                          | Inr (Some r) \<Rightarrow> Some (datapoint_of_row r))
                       else None)
                in if table_available st concept_table then
                     (case fetch st (ConceptCodeOrLabelLike concept_table
                                       (like_pattern clean_name) (like_pattern clean_name)) of
                        Inl e \<Rightarrow> None
                      | Inr None \<Rightarrow> in_datapoints
                      | Inr (Some r) \<Rightarrow> Some (concept_of_row r))
                   else in_datapoints)))"

text \<open>The table \<open>prefix_mappings\<close> and \<open>prefix_mappings.get(prefix, [prefix])\<close>.\<close>

definition prefix_mappings :: "(string \<times> string list) list" where
  "prefix_mappings =
     [(''eba_met'', [''eba_met'', ''find'']),
      (''eba_met_3.4'', [''eba_met'', ''find'']),
      (''eba_met_4.0'', [''eba_met'', ''find'']),
      (''find'', [''find'', ''eba_met''])]"

definition prefix_variants :: "string \<Rightarrow> string list" where
  "prefix_variants prefix =
     (case map_of prefix_mappings prefix of None \<Rightarrow> [prefix] | Some vs \<Rightarrow> vs)"

text \<open>A loop that sends one query after the other and returns the first non-empty row;
  an exception ends it with nothing.\<close>

fun first_row :: "store \<Rightarrow> query list \<Rightarrow> row option" where
  "first_row st [] = None"
| "first_row st (q # qs) =
     (case fetch st q of
        Inl e \<Rightarrow> None
      | Inr None \<Rightarrow> first_row st qs
      | Inr (Some r) \<Rightarrow> Some r)"

text \<open>\<open>_search_by_prefix_variants\<close>.\<close>

definition search_by_prefix_variants :: "store \<Rightarrow> string \<Rightarrow> concept option" where
  "search_by_prefix_variants st concept_name =
     (if \<not> has_colon concept_name then None
      else
        (let prefix = before_first_colon concept_name;
             local_name = after_first_colon concept_name;
             variants = prefix_variants prefix
         in case connect st of
              Some e \<Rightarrow> None
            | None \<Rightarrow>
                (case detect_database_version st of
                   dmp_3_3 \<Rightarrow> None
                 | dmp_4_0 \<Rightarrow>
                     (let concept_table = get_actual_table_name st ''tConcept''
                      in if \<not> table_available st concept_table then None
                         else map_option concept_of_row
                                (first_row st
                                   (map (\<lambda>variant_prefix.
                                           ConceptCodeEq concept_table
                                             (variant_prefix @ '':'' @ local_name))
                                        variants))))))"

text \<open>\<open>_search_by_partial_match\<close>.\<close>

definition search_by_partial_match :: "store \<Rightarrow> string \<Rightarrow> concept option" where
  "search_by_partial_match st clean_name =
     (case connect st of
        Some e \<Rightarrow> None
      | None \<Rightarrow>
          (case detect_database_version st of
             dmp_3_3 \<Rightarrow> None
           | dmp_4_0 \<Rightarrow>
               (let concept_table = get_actual_table_name st ''tConcept''
                in if table_available st concept_table then
                     map_option concept_of_row
                       (first_row st
                          (map (\<lambda>pattern. ConceptCodeLike concept_table (like_pattern pattern))
                               [clean_name, upper clean_name, lower clean_name]))
                   else None)))"

text \<open>The loop of \<open>_search_in_member_table\<close> over the search patterns, each with its
  search type; the partial patterns use the LIKE query.\<close>

fun member_search :: "store \<Rightarrow> string \<Rightarrow> (string \<times> string) list \<Rightarrow> concept option" where
  "member_search st member_table [] = None"
| "member_search st member_table ((pattern, search_type) # rest) =
     (case fetch st (if str_in ''partial'' search_type
                     then MemberCodeLike member_table pattern pattern
                     else MemberCodeEq member_table pattern pattern) of
        Inl e \<Rightarrow> None
      | Inr None \<Rightarrow> member_search st member_table rest
      | Inr (Some r) \<Rightarrow> Some (member_of_row r search_type))"

text \<open>\<open>_search_in_member_table\<close>.\<close>

definition search_in_member_table :: "store \<Rightarrow> string \<Rightarrow> concept option" where
  "search_in_member_table st concept_name =
     (case connect st of
        Some e \<Rightarrow> None
      | None \<Rightarrow>
          (let member_table = get_actual_table_name st ''tMember''
           in if \<not> table_available st member_table then None
              else
                (let clean_name = clean_concept_name concept_name
                 in member_search st member_table
                      [(concept_name, ''exact match''),
                       (clean_name, ''clean name exact match''),
                       (like_pattern concept_name, ''concept name partial match''),
                       (like_pattern clean_name, ''clean name partial match'')])))"

text \<open>\<open>_search_using_queries_manager\<close>.\<close>

definition search_using_queries_manager :: "store \<Rightarrow> string \<Rightarrow> concept option" where
  "search_using_queries_manager st concept_name = None"

text \<open>\<open>a or b\<close> on results: a result dictionary is never empty, so it is truthy.\<close>

definition or_else :: "'a option \<Rightarrow> 'a option \<Rightarrow> 'a option" where
  "or_else a b = (case a of Some x \<Rightarrow> Some x | None \<Rightarrow> b)"

text \<open>The cascade of strategies in \<open>resolve_concept_from_dmp\<close>.\<close>

definition cascade :: "store \<Rightarrow> string \<Rightarrow> concept option" where
  "cascade st concept_name =
     (let clean_concept = clean_concept_name concept_name
      in or_else (search_by_exact_match st concept_name)
        (or_else (search_by_clean_name st clean_concept)
        (or_else (search_by_prefix_variants st concept_name)
        (or_else (search_by_partial_match st clean_concept)
        (or_else (search_in_member_table st concept_name)
                 (search_using_queries_manager st concept_name))))))"

text \<open>
  \<open>resolve_concept_from_dmp\<close> with the state of the resolver, the dictionary
  \<open>concept_cache\<close>, passed in and returned. No statement of its \<open>try\<close> block raises: each
  strategy catches its own exceptions and every result has the key \<open>ConceptCode\<close>.
\<close>

definition resolve_concept_from_dmp ::
    "store \<Rightarrow> (string \<rightharpoonup> concept) \<Rightarrow> string \<Rightarrow> concept option \<times> (string \<rightharpoonup> concept)" where
  "resolve_concept_from_dmp st concept_cache concept_name =
     (case concept_cache concept_name of
        Some cached \<Rightarrow> (Some cached, concept_cache)
      | None \<Rightarrow>
          (case cascade st concept_name of
             Some dmp_concept \<Rightarrow>
               (Some dmp_concept, concept_cache(concept_name \<mapsto> dmp_concept))
           | None \<Rightarrow> (None, concept_cache)))"

text \<open>
  An example store of the DMP 4.0 generation with a concept table and a member table. The
  concept \<open>eba_met:mi53\<close> is found by code, and also by the patterns that contain
  \<open>mi53\<close>, which hit the longer code \<open>eba_met:mi530\<close> first; \<open>eba_GA:x1\<close> is known to
  the member table only; nothing else is found.
\<close>

definition example_execute :: "query \<Rightarrow> exn + row option" where
  "example_execute q =
     (case q of
        Probe t \<Rightarrow>
          if t = ''tConcept'' then Inr None else Inl (OtherError ''no such table'')
      | ConceptCodeOrLabelEq t code label \<Rightarrow>
          if code = ''eba_met:mi53''
          then Inr (Some [Some ''eba_met:mi53'', Some ''Carrying amount'',
                          Some ''Monetary'', Some ''mi53''])
          else Inr None
      | ConceptCodeOrLabelLike t code_pattern label_pattern \<Rightarrow>
          if code_pattern = ''%mi53%''
          then Inr (Some [Some ''eba_met:mi530'', Some ''Accumulated impairment'',
                          Some ''Monetary'', Some ''mi530''])
          else Inr None
      | ConceptCodeLike t code_pattern \<Rightarrow>
          if code_pattern = ''%mi53%''
          then Inr (Some [Some ''eba_met:mi530'', Some ''Accumulated impairment'',
                          Some ''Monetary'', Some ''mi530''])
          else Inr None
      | MemberCodeEq t code xbrl_code \<Rightarrow>
          if code = ''eba_GA:x1''
          then Inr (Some [Some ''x1'', Some ''eba_GA:x1'', Some ''Spain''])
          else Inr None
      | other \<Rightarrow> Inr None)"

definition example_store :: store where
  "example_store =
     \<lparr>connect = None,
      execute = example_execute,
      table_mappings = [(''tConcept'', ''tConcept''), (''tMember'', ''tMember'')]\<rparr>"



section \<open>Concept resolution stage (hybrid\_validation\_engine.py)\<close>

subsection \<open>Python floats\<close>

text \<open>
  The resolution rate is computed with Python floats, which are IEEE 754 doubles: a finite
  double is a rational number \<open>m * 2 ^ e\<close> with \<open>\<bar>m\<bar> < 2 ^ 53\<close> and \<open>- 1074 \<le> e\<close>, and every
  operation returns the double nearest to the exact result, a tie going to the even
  significand. \<open>pow2 k\<close> is \<open>2 ^ k\<close> for an integer \<open>k\<close>; \<open>floor_log2 x\<close> is the exponent of the
  power of two at or below a positive \<open>x\<close>.
\<close>

definition pow2 :: "int \<Rightarrow> rat" where
  "pow2 k = (if 0 \<le> k then 2 ^ nat k else 1 / 2 ^ nat (- k))"

function flog2 :: "rat \<Rightarrow> nat" where
  "flog2 x = (if x < 2 then 0 else Suc (flog2 (x / 2)))"
  by pat_completeness auto
termination
proof (relation "measure (\<lambda>x. nat \<lfloor>x\<rfloor>)")
  show "wf (measure (\<lambda>x::rat. nat \<lfloor>x\<rfloor>))" by simp
next
  fix x :: rat
  assume "\<not> x < 2"
  then have "2 \<le> x" by simp
  then have "x / 2 \<le> x - 1" by simp
  then have "\<lfloor>x / 2\<rfloor> \<le> \<lfloor>x - 1\<rfloor>" by (rule floor_mono)
  then have "\<lfloor>x / 2\<rfloor> < \<lfloor>x\<rfloor>" by simp
  moreover have "0 < \<lfloor>x\<rfloor>" using \<open>2 \<le> x\<close> by simp
  ultimately have "nat \<lfloor>x / 2\<rfloor> < nat \<lfloor>x\<rfloor>" by (simp only: zless_nat_conj)
  then show "(x / 2, x) \<in> measure (\<lambda>x. nat \<lfloor>x\<rfloor>)" by simp
qed

function clog2 :: "rat \<Rightarrow> nat" where
  "clog2 y = (if y \<le> 1 then 0 else Suc (clog2 (y / 2)))"
  by pat_completeness auto
termination
proof (relation "measure (\<lambda>y. nat \<lceil>y\<rceil>)")
  show "wf (measure (\<lambda>y::rat. nat \<lceil>y\<rceil>))" by simp
next
  fix y :: rat
  assume "\<not> y \<le> 1"
  then have "1 < y" by simp
  then have "1 < \<lceil>y\<rceil>" by (simp add: less_ceiling_iff)
  then have two: "2 \<le> \<lceil>y\<rceil>" by simp
  have "y \<le> of_int \<lceil>y\<rceil>" by (rule le_of_int_ceiling)
  moreover from two have "(2::rat) \<le> of_int \<lceil>y\<rceil>" by linarith
  ultimately have "y / 2 \<le> of_int \<lceil>y\<rceil> - 1" by linarith
  then have "y / 2 \<le> of_int (\<lceil>y\<rceil> - 1)" by simp
  then have "\<lceil>y / 2\<rceil> \<le> \<lceil>y\<rceil> - 1" by (rule ceiling_le)
  then have "\<lceil>y / 2\<rceil> < \<lceil>y\<rceil>" by simp
  moreover have "0 < \<lceil>y\<rceil>" using two by simp
  ultimately have "nat \<lceil>y / 2\<rceil> < nat \<lceil>y\<rceil>" by (simp only: zless_nat_conj)
  then show "(y / 2, y) \<in> measure (\<lambda>y. nat \<lceil>y\<rceil>)" by simp
qed

declare flog2.simps [simp del] clog2.simps [simp del]

definition floor_log2 :: "rat \<Rightarrow> int" where
  "floor_log2 x = (if 1 \<le> x then int (flog2 x) else - int (clog2 (1 / x)))"

text \<open>Rounding to the nearest integer, a tie going to the even one.\<close>

definition round_half_even :: "rat \<Rightarrow> int" where
  "round_half_even x =
     (let f = \<lfloor>x\<rfloor>; r = x - of_int f
      in if r < 1 / 2 then f else if 1 / 2 < r then f + 1 else if even f then f else f + 1)"

text \<open>The double nearest to a rational number: the significand keeps 53 bits, or fewer in
  the subnormal range. Overflow is tested by the operations below.\<close>

definition round_to_double :: "rat \<Rightarrow> rat" where
  "round_to_double x =
     (if x = 0 then 0
      else (let e = max (floor_log2 \<bar>x\<bar> - 52) (- 1074)
            in sgn x * of_int (round_half_even (\<bar>x\<bar> / pow2 e)) * pow2 e))"

text \<open>
  \<open>a / b\<close> on integers (the correctly rounded quotient; ZeroDivisionError and
  OverflowError are its two exceptions), \<open>x * y\<close> on floats, and the format \<open>f"{x:.1f}"\<close>,
  which writes the decimal with one digit after the point that is nearest to the double,
  a tie going to the even digit.
\<close>

definition int_truediv :: "int \<Rightarrow> int \<Rightarrow> exn + rat" where
  "int_truediv a b =
     (if b = 0 then Inl (OtherError ''division by zero'')
      else (let q = round_to_double (of_int a / of_int b)
            in if 2 ^ 1024 \<le> \<bar>q\<bar>
               then Inl (OtherError ''integer division result too large for a float'')
               else Inr q))"

definition float_mul :: "rat \<Rightarrow> rat \<Rightarrow> pyfloat" where
  "float_mul x y =
     (let p = round_to_double (x * y)
      in if 2 ^ 1024 \<le> p then PosInf else if p \<le> - (2 ^ 1024) then NegInf else Finite p)"

definition format_1f :: "pyfloat \<Rightarrow> string" where
  "format_1f v =
     (case v of
        Finite x \<Rightarrow>
          (let d = nat (round_half_even (\<bar>x\<bar> * 10))
           in (if x < 0 then ''-'' else []) @ show_nat (d div 10) @ ''.'' @ show_nat (d mod 10))
      | PosInf \<Rightarrow> ''inf''
      | NegInf \<Rightarrow> ''-inf''
      | NaN \<Rightarrow> ''nan'')"

subsection \<open>The stage\<close>

text \<open>The rate at the end of \<open>_resolve_concepts_in_dmp\<close>, from the two counters.\<close>

definition resolution_rate_text :: "nat \<Rightarrow> nat \<Rightarrow> exn + string" where
  "resolution_rate_text resolved business =
     (if business > 0 then
        (case int_truediv (int resolved) (int business) of
           Inl e \<Rightarrow> Inl e
         | Inr q \<Rightarrow> Inr (format_1f (float_mul q 100) @ ''%''))
      else Inr ''0%'')"

text \<open>The same rate as the specification words it: resolved facts divided by business
  facts, times 100, as an exact number, written with one decimal; \<open>0%\<close> without business
  facts.\<close>

definition spec_resolution_rate :: "nat \<Rightarrow> nat \<Rightarrow> string" where
  "spec_resolution_rate resolved business =
     (if business = 0 then ''0%''
      else format_1f (Finite (of_nat resolved / of_nat business * 100)) @ ''%'')"

text \<open>Truth of a value in a condition.\<close>

fun truthy :: "pyval \<Rightarrow> bool" where
  "truthy PNone = False"
| "truthy (PBool b) = b"
| "truthy (PInt i) = (i \<noteq> 0)"
| "truthy (PStr s) = (s \<noteq> [])"
| "truthy (PList xs) = (xs \<noteq> [])"
| "truthy (PDict d) = (d \<noteq> [])"

definition structural_elements :: "string list" where
  "structural_elements =
     [''facts'', ''contexts'', ''units'', ''namespaces'', ''parsing_statistics'', ''file_path'']"

definition business_prefixes :: "string list" where
  "business_prefixes = [''eba_'', ''find'', ''finrep'', ''corep'', ''met'', ''dim'', ''gb'']"

definition structural_prefixes :: "string list" where
  "structural_prefixes = [''xbrl'', ''xml'', ''xsi'', ''link'', ''xlink'']"

text \<open>
  The detection of a business concept in the loop: the first element of a non-empty list
  stands for the list; only a dictionary can be a business concept; \<open>prefix.lower()\<close>
  raises on a prefix that is not a text.
\<close>

definition is_business_concept :: "string \<Rightarrow> pyval \<Rightarrow> exn + bool" where
  "is_business_concept fact_name fact_data =
     (let fact_instance = (case fact_data of PList (x # xs) \<Rightarrow> x | other \<Rightarrow> fact_data)
      in case fact_instance of
           PDict d \<Rightarrow>
             (case dict_get_default d ''prefix'' (PStr []) of
                PStr prefix \<Rightarrow>
                  Inr (if any_in business_prefixes (lower prefix) then True
                       else if lower prefix \<notin> set structural_prefixes \<and> has_colon fact_name
                       then True
                       else truthy (dict_get_default d ''is_business_concept'' (PBool False)))
              | v \<Rightarrow> Inl (no_attribute v ''lower''))
         | other \<Rightarrow> Inr False)"

text \<open>The counters of the dictionary \<open>results\<close> that the loop updates.\<close>

record resolution_counts =
  business_facts :: nat
  resolved_facts :: nat
  unresolved_facts :: nat

text \<open>
  The loop over \<open>facts.items()\<close>, with the cache of the resolver passed through. The keys
  \<open>resolution_details\<close> and \<open>resolution_by_source\<close>, which no counter depends on, are left
  out. An exception of the body ends the function, which has no handler.
\<close>

fun resolve_facts ::
    "store \<Rightarrow> (string \<rightharpoonup> concept) \<Rightarrow> resolution_counts \<Rightarrow> (string \<times> pyval) list
       \<Rightarrow> exn + resolution_counts \<times> (string \<rightharpoonup> concept)" where
  "resolve_facts st concept_cache results [] = Inr (results, concept_cache)"
| "resolve_facts st concept_cache results ((fact_name, fact_data) # rest) =
     (if fact_name \<in> set structural_elements
      then resolve_facts st concept_cache results rest
      else
        (case is_business_concept fact_name fact_data of
           Inl e \<Rightarrow> Inl e
         | Inr business \<Rightarrow>
             if \<not> business then resolve_facts st concept_cache results rest
             else if \<not> has_colon fact_name then resolve_facts st concept_cache results rest
             else
               (case resolve_concept_from_dmp st concept_cache fact_name of
                  (Some resolution, concept_cache') \<Rightarrow>
                    resolve_facts st concept_cache'
                      (results\<lparr>business_facts := business_facts results + 1,
                               resolved_facts := resolved_facts results + 1\<rparr>) rest
                | (None, concept_cache') \<Rightarrow>
                    resolve_facts st concept_cache'
                      (results\<lparr>business_facts := business_facts results + 1,
                               unresolved_facts := unresolved_facts results + 1\<rparr>) rest)))"

text \<open>The result of \<open>_resolve_concepts_in_dmp\<close>: the counters, the number of facts and the
  rate (the constant status and the timestamp are left out).\<close>

record resolution = resolution_counts +
  total_facts :: nat
  resolution_rate :: string

definition resolve_concepts_in_dmp ::
    "store \<Rightarrow> (string \<rightharpoonup> concept) \<Rightarrow> (string \<times> pyval) list
       \<Rightarrow> exn + resolution \<times> (string \<rightharpoonup> concept)" where
  "resolve_concepts_in_dmp st concept_cache facts =
     (case resolve_facts st concept_cache
             \<lparr>business_facts = 0, resolved_facts = 0, unresolved_facts = 0\<rparr> facts of
        Inl e \<Rightarrow> Inl e
      | Inr (results, concept_cache') \<Rightarrow>
          (case resolution_rate_text (resolved_facts results) (business_facts results) of
             Inl e \<Rightarrow> Inl e
           | Inr rate \<Rightarrow>
               Inr (\<lparr>business_facts = business_facts results,
                     resolved_facts = resolved_facts results,
                     unresolved_facts = unresolved_facts results,
                     total_facts = length facts,
                     resolution_rate = rate\<rparr>,
                    concept_cache')))"

text \<open>Example facts: a structural element, two facts that the example store resolves and
  one that it does not.\<close>

definition example_facts :: "(string \<times> pyval) list" where
  "example_facts =
     [(''contexts'', PDict []),
      (''eba_met:mi53'',
         PList [PDict [(''prefix'', PStr ''eba_met''), (''value'', PStr ''100''),
                       (''is_business_concept'', PBool True)]]),
      (''eba_GA:x1'', PDict [(''prefix'', PStr ''eba_GA''), (''value'', PStr ''ES'')]),
      (''eba_met:q9'', PDict [(''prefix'', PStr ''eba_met''), (''value'', PStr ''7'')])]"

section \<open>Reconciliation with the external validator (validation\_logic.py)\<close>

text \<open>\<open>str(v)\<close> of a column value inside an f-string.\<close>

definition str_sql :: "sqlval \<Rightarrow> string" where
  "str_sql v = (case v of None \<Rightarrow> ''None'' | Some s \<Rightarrow> s)"

text \<open>The entries that \<open>process_arelle_output\<close> appends to \<open>errors\<close> and to
  \<open>dmp_results\<close>.\<close>

record error_entry =
  err_message :: string
  err_severity :: string
  err_code :: string
  err_concept :: string
  err_line :: nat

record dmp_result =
  res_concept :: string
  res_rule :: string
  res_status :: string
  res_message :: string
  res_annotation :: string
  res_ruleType :: string
  res_severity :: string
  res_source :: "string option"
  res_dmpData :: "concept option"

text \<open>The first loop: every missing concept is resolved; the hits go into the dictionary
  \<open>resolved_concepts\<close>, the misses are appended to \<open>unresolved_concepts\<close>. The cache of the
  resolver is threaded through the calls.\<close>

fun resolve_missing ::
    "store \<Rightarrow> (string \<rightharpoonup> concept) \<Rightarrow> (string \<times> concept) list \<Rightarrow> string list \<Rightarrow> string list
       \<Rightarrow> (string \<times> concept) list \<times> string list \<times> (string \<rightharpoonup> concept)" where
  "resolve_missing st concept_cache resolved unresolved [] = (resolved, unresolved, concept_cache)"
| "resolve_missing st concept_cache resolved unresolved (c # rest) =
     (case resolve_concept_from_dmp st concept_cache c of
        (Some dmp_concept, concept_cache') \<Rightarrow>
          resolve_missing st concept_cache' (dict_set resolved c dmp_concept) unresolved rest
      | (None, concept_cache') \<Rightarrow>
          resolve_missing st concept_cache' resolved (unresolved @ [c]) rest)"

text \<open>The body of the second loop, for one resolved concept and the running
  \<open>issue_id\<close>.\<close>

definition resolved_entry :: "nat \<Rightarrow> string \<Rightarrow> concept \<Rightarrow> error_entry \<times> dmp_result" where
  "resolved_entry issue_id c dmp_concept =
     (let severity = (if source dmp_concept = ''tMember'' then ''info'' else ''warning'');
          xbrl_part =
            (if source dmp_concept = ''tMember'' then
               (case MemberXbrlCode dmp_concept of
                  Some (Some xbrl_code) \<Rightarrow>
                    if xbrl_code = [] then [] else '' (XBRL Code: '' @ xbrl_code @ '')''
                | other \<Rightarrow> [])
             else []);
          source_info = ''Found in '' @ source dmp_concept @ '' table'' @ xbrl_part
      in (\<lparr>err_message = ''Concept resolved in DMP database: '' @ c,
           err_severity = severity,
           err_code = ''CONCEPT-RESOLVED-'' @ show_nat issue_id,
           err_concept = c,
           err_line = issue_id\<rparr>,
          \<lparr>res_concept = c,
           res_rule = ''EBA-RESOLUTION-'' @ show_nat issue_id,
           res_status = ''Resolved'',
           res_message = ''Concept '' @ c @ '' exists in DMP 4.0 database as ''
                           @ str_sql (ConceptCode dmp_concept),
           res_annotation = source_info
                           @ ''. Consider updating taxonomy to include this concept.'',
           res_ruleType = ''resolution'',
           res_severity = severity,
           res_source = Some (source dmp_concept),
           res_dmpData = Some dmp_concept\<rparr>))"

text \<open>The body of the third loop, for one unresolved concept.\<close>

definition unresolved_entry :: "nat \<Rightarrow> string \<Rightarrow> error_entry \<times> dmp_result" where
  "unresolved_entry issue_id c =
     (\<lparr>err_message = ''Missing schema concept definition: '' @ c,
       err_severity = ''error'',
       err_code = ''MISSING-CONCEPT-'' @ show_nat issue_id,
       err_concept = c,
       err_line = issue_id\<rparr>,
      \<lparr>res_concept = c,
       res_rule = ''EBA-MISSING-'' @ show_nat issue_id,
       res_status = ''Failed'',
       res_message = ''Schema concept definition missing for '' @ c,
       res_annotation = ''Required EBA concept '' @ c
         @ '' not found in loaded taxonomy schemas or DMP 4.0 database (including Member table)'',
       res_ruleType = ''schema'',
       res_severity = ''error'',
       res_source = None,
       res_dmpData = None\<rparr>)"

fun resolved_entries :: "nat \<Rightarrow> (string \<times> concept) list \<Rightarrow> (error_entry \<times> dmp_result) list" where
  "resolved_entries issue_id [] = []"
| "resolved_entries issue_id ((c, dmp_concept) # rest) =
     resolved_entry issue_id c dmp_concept # resolved_entries (Suc issue_id) rest"

fun unresolved_entries :: "nat \<Rightarrow> string list \<Rightarrow> (error_entry \<times> dmp_result) list" where
  "unresolved_entries issue_id [] = []"
| "unresolved_entries issue_id (c # rest) =
     unresolved_entry issue_id c # unresolved_entries (Suc issue_id) rest"

text \<open>
  The part of \<open>process_arelle_output\<close> between the extraction of the missing concepts and
  the totals: from the list of missing concept names to the lists \<open>errors\<close> and
  \<open>dmp_results\<close>, with the cache of the resolver afterwards. The names come out of
  \<open>_extract_missing_concepts_enhanced\<close>, which scans the output text of the validator.
\<close>

definition process_missing_concepts ::
    "store \<Rightarrow> (string \<rightharpoonup> concept) \<Rightarrow> string list
       \<Rightarrow> error_entry list \<times> dmp_result list \<times> (string \<rightharpoonup> concept)" where
  "process_missing_concepts st concept_cache missing =
     (case resolve_missing st concept_cache [] [] missing of
        (resolved_concepts, unresolved_concepts, concept_cache') \<Rightarrow>
          (let resolved_part = resolved_entries 1 resolved_concepts;
               unresolved_part =
                 unresolved_entries (1 + length resolved_concepts) unresolved_concepts
           in (map fst resolved_part @ map fst unresolved_part,
               map snd resolved_part @ map snd unresolved_part,
               concept_cache')))"

section \<open>Verified properties\<close>

subsection \<open>Rule evaluator\<close>

lemma evaluate_rules_append:
  "evaluate_rules (xs @ ys) facts = evaluate_rules xs facts @ evaluate_rules ys facts"
  by (induction xs) simp_all

text \<open>
  Claim C6. A rule whose compiled kind (its \<open>execution_method\<close>) is calculation,
  consistency or conditional evaluates to a result with status \<open>skipped\<close>, and a rule of
  kind general evaluates to status \<open>passed\<close>, whatever the facts are.
\<close>

theorem evaluate_rule_kind_status:
  "(map_of rule ''execution_method'' = Some (PStr m) \<and>
      m \<in> {''calculation_check'', ''consistency_check'', ''conditional_check''}
      \<longrightarrow> status (evaluate_rule rule facts) = ''skipped'')
   \<and> (map_of rule ''execution_method'' = Some (PStr ''general_validation'')
      \<longrightarrow> status (evaluate_rule rule facts) = ''passed'')"
  by (auto simp: evaluate_rule_def dispatch_rule_def dict_get_default_def update_result_def
      initial_result_def evaluate_calculation_rule_def evaluate_consistency_rule_def
      evaluate_conditional_rule_def evaluate_general_rule_def)

theorem evaluate_rule_kind_status_witness:
  "status (evaluate_rule [(''RuleCode'', PStr ''v0001_m''),
                          (''execution_method'', PStr ''conditional_check'')]
             [(''eba_met:mi53'', PStr ''100'')]) = ''skipped''
   \<and> status (evaluate_rule [(''RuleCode'', PStr ''v0002_m''),
                            (''execution_method'', PStr ''general_validation'')]
             [(''eba_met:mi53'', PStr ''100'')]) = ''passed''"
  using evaluate_rule_kind_status
          [of "[(''RuleCode'', PStr ''v0001_m''), (''execution_method'', PStr ''conditional_check'')]"
              "''conditional_check''" "[(''eba_met:mi53'', PStr ''100'')]"]
        evaluate_rule_kind_status
          [of "[(''RuleCode'', PStr ''v0002_m''), (''execution_method'', PStr ''general_validation'')]"
              "''x''" "[(''eba_met:mi53'', PStr ''100'')]"]
  by simp

text \<open>
  Claim C7. When the evaluation of a rule raises an exception \<open>e\<close>, \<open>evaluate_rule\<close>
  still returns a result for that rule: its status is \<open>error\<close>, its message is
  \<open>Rule evaluation failed: \<close> followed by the text of \<open>e\<close>, and it keeps the rule's code.
  The results of the rules evaluated before and after it in the loop are the ones they
  have on their own.
\<close>

theorem evaluate_rule_exception_isolated:
  assumes "dispatch_rule rule facts = Inl e"
  shows "status (evaluate_rule rule facts) = ''error''
       \<and> message (evaluate_rule rule facts) = ''Rule evaluation failed: '' @ str_exn e
       \<and> rule_code (evaluate_rule rule facts) = dict_get rule ''RuleCode''
       \<and> evaluate_rules (before @ rule # after) facts
           = evaluate_rules before facts @ evaluate_rule rule facts # evaluate_rules after facts"
  using assms by (simp add: evaluate_rule_def initial_result_def evaluate_rules_append)

theorem evaluate_rule_exception_isolated_witness:
  "dispatch_rule [(''RuleCode'', PStr ''v0003_m''), (''execution_method'', PStr ''existence_check''),
                  (''parsed_expression'', PNone)]
                 [(''ns1:Assets'', PStr ''1000000'')]
     = Inl (no_attribute PNone ''get'')
   \<and> status (evaluate_rule [(''RuleCode'', PStr ''v0003_m''),
                            (''execution_method'', PStr ''existence_check''),
                            (''parsed_expression'', PNone)]
                           [(''ns1:Assets'', PStr ''1000000'')]) = ''error''
   \<and> map status (evaluate_rules
         [[(''RuleCode'', PStr ''v0004_m''), (''execution_method'', PStr ''existence_check''),
           (''parsed_expression'', PDict [(''concepts'', PList [PStr ''Equity''])])],
          [(''RuleCode'', PStr ''v0003_m''), (''execution_method'', PStr ''existence_check''),
           (''parsed_expression'', PNone)],
          [(''RuleCode'', PStr ''v0005_m''), (''execution_method'', PStr ''existence_check''),
           (''parsed_expression'', PDict [(''concepts'', PList [PStr ''Assets''])])]]
         [(''ns1:Assets'', PStr ''1000000'')])
       = [''failed'', ''error'', ''passed'']"
proof -
  let ?bad = "[(''RuleCode'', PStr ''v0003_m''), (''execution_method'', PStr ''existence_check''),
               (''parsed_expression'', PNone)]"
  let ?facts = "[(''ns1:Assets'', PStr ''1000000'')]"
  let ?e = "no_attribute PNone ''get''"
  have raised: "dispatch_rule ?bad ?facts = Inl ?e"
    by (simp add: dispatch_rule_def dict_get_default_def evaluate_existence_rule_def)
  note isolated = evaluate_rule_exception_isolated [OF raised,
      of "[[(''RuleCode'', PStr ''v0004_m''), (''execution_method'', PStr ''existence_check''),
            (''parsed_expression'', PDict [(''concepts'', PList [PStr ''Equity''])])]]"
         "[[(''RuleCode'', PStr ''v0005_m''), (''execution_method'', PStr ''existence_check''),
            (''parsed_expression'', PDict [(''concepts'', PList [PStr ''Assets''])])]]"]
  have first: "status (evaluate_rule
         [(''RuleCode'', PStr ''v0004_m''), (''execution_method'', PStr ''existence_check''),
          (''parsed_expression'', PDict [(''concepts'', PList [PStr ''Equity''])])] ?facts) = ''failed''"
    by (simp add: evaluate_rule_def dispatch_rule_def dict_get_default_def
        evaluate_existence_rule_def has_colon_def after_last_colon_def comma_join_def
        update_result_def initial_result_def)
  have last: "status (evaluate_rule
         [(''RuleCode'', PStr ''v0005_m''), (''execution_method'', PStr ''existence_check''),
          (''parsed_expression'', PDict [(''concepts'', PList [PStr ''Assets''])])] ?facts) = ''passed''"
    by (simp add: evaluate_rule_def dispatch_rule_def dict_get_default_def
        evaluate_existence_rule_def has_colon_def after_last_colon_def comma_join_def
        update_result_def initial_result_def)
  show ?thesis
    using raised isolated first last by simp
qed

subsection \<open>Rule parser\<close>

text \<open>
  Claim C9, as stated: when the declared rule type and the literal tokens of the expression
  disagree, the rule is classified by the tokens; a rule declared as calculation whose
  expression contains only \<open>exists(\<close> is classified for existence checking. The code
  classifies that rule for calculation checking: the tokens alone give
  \<open>existence_check\<close>, the declared type turns it into \<open>calculation_check\<close>.
\<close>

theorem declared_type_overrides_tokens_counterexample:
  "determine_execution_method [] ''exists(eba_met:mi53)'' = ''existence_check''
   \<and> process_rule_execution_method ''Calculation'' ''exists(eba_met:mi53)'' = ''calculation_check''
   \<and> process_rule_execution_method ''Calculation'' ''exists(eba_met:mi53)'' \<noteq> ''existence_check''"
  by (simp add: determine_execution_method_def process_rule_execution_method_def lower_def
      lower_char_def any_in_def)

text \<open>
  Claim C9, amended. The kinds are tried in the fixed order calculation, existence,
  consistency, conditional; a kind is chosen as soon as the declared type names it or the
  expression contains its token (\<open>sum(\<close>, \<open>exists(\<close>, one of \<open>=\<close> \<open>>\<close> \<open><\<close>, \<open>if\<close>), and the
  rule is general when no kind is signalled. Where the two signals disagree, the kind that
  comes first in this order wins, whichever signal names it.
\<close>

theorem execution_method_cascade:
  "(str_in ''calculation'' (lower t) \<or> str_in ''sum('' (lower ex)
      \<longrightarrow> process_rule_execution_method t ex = ''calculation_check'')
   \<and> (\<not> (str_in ''calculation'' (lower t) \<or> str_in ''sum('' (lower ex))
        \<and> (str_in ''existence'' (lower t) \<or> str_in ''exists('' (lower ex))
      \<longrightarrow> process_rule_execution_method t ex = ''existence_check'')
   \<and> (\<not> (str_in ''calculation'' (lower t) \<or> str_in ''sum('' (lower ex))
        \<and> \<not> (str_in ''existence'' (lower t) \<or> str_in ''exists('' (lower ex))
        \<and> (str_in ''consistency'' (lower t) \<or> any_in [''='', ''>'', ''<''] ex)
      \<longrightarrow> process_rule_execution_method t ex = ''consistency_check'')
   \<and> (\<not> (str_in ''calculation'' (lower t) \<or> str_in ''sum('' (lower ex))
        \<and> \<not> (str_in ''existence'' (lower t) \<or> str_in ''exists('' (lower ex))
        \<and> \<not> (str_in ''consistency'' (lower t) \<or> any_in [''='', ''>'', ''<''] ex)
        \<and> (str_in ''conditional'' (lower t) \<or> str_in ''if'' (lower ex))
      \<longrightarrow> process_rule_execution_method t ex = ''conditional_check'')
   \<and> (\<not> (str_in ''calculation'' (lower t) \<or> str_in ''sum('' (lower ex))
        \<and> \<not> (str_in ''existence'' (lower t) \<or> str_in ''exists('' (lower ex))
        \<and> \<not> (str_in ''consistency'' (lower t) \<or> any_in [''='', ''>'', ''<''] ex)
        \<and> \<not> (str_in ''conditional'' (lower t) \<or> str_in ''if'' (lower ex))
      \<longrightarrow> process_rule_execution_method t ex = ''general_validation'')"
  by (simp add: determine_execution_method_def process_rule_execution_method_def)

theorem execution_method_cascade_witness:
  "str_in ''calculation'' (lower ''Calculation'')
   \<and> process_rule_execution_method ''Calculation'' ''exists(a)'' = ''calculation_check''
   \<and> str_in ''sum('' (lower ''SUM(a)'')
   \<and> process_rule_execution_method ''Existence'' ''SUM(a)'' = ''calculation_check''
   \<and> str_in ''exists('' (lower ''exists(a)'')
   \<and> process_rule_execution_method ''Conditional'' ''exists(a)'' = ''existence_check''"
proof -
  have h1: "str_in ''calculation'' (lower ''Calculation'')"
    by (simp add: lower_def lower_char_def)
  have h2: "str_in ''sum('' (lower ''SUM(a)'')"
    by (simp add: lower_def lower_char_def)
  have h3: "\<not> (str_in ''calculation'' (lower ''Conditional'') \<or> str_in ''sum('' (lower ''exists(a)''))
            \<and> (str_in ''existence'' (lower ''Conditional'') \<or> str_in ''exists('' (lower ''exists(a)''))"
    by (simp add: lower_def lower_char_def)
  have h4: "str_in ''exists('' (lower ''exists(a)'')"
    by (simp add: lower_def lower_char_def)
  have c1: "process_rule_execution_method ''Calculation'' ''exists(a)'' = ''calculation_check''"
    by (rule execution_method_cascade [THEN conjunct1, rule_format, OF disjI1 [OF h1]])
  have c2: "process_rule_execution_method ''Existence'' ''SUM(a)'' = ''calculation_check''"
    by (rule execution_method_cascade [THEN conjunct1, rule_format, OF disjI2 [OF h2]])
  have c3: "process_rule_execution_method ''Conditional'' ''exists(a)'' = ''existence_check''"
    by (rule execution_method_cascade [THEN conjunct2, THEN conjunct1, rule_format, OF h3])
  show ?thesis
    by (intro conjI h1 h2 h4 c1 c2 c3)
qed

subsection \<open>Result synthesizer\<close>

lemma dict_get_dict_set_same: "dict_get (dict_set d k v) k = v"
  by (induction d) (auto simp: dict_get_def)

lemma dict_get_dict_set_other: "k' \<noteq> k \<Longrightarrow> dict_get (dict_set d k v) k' = dict_get d k'"
  by (induction d) (auto simp: dict_get_def)

lemma timeout_stage_status:
  "dict_get (merge_arelle_result base (execute_arelle_validation parse now TimeoutExpired))
     ''status'' = PStr ''timeout''"
  by (simp add: merge_arelle_result_def execute_arelle_validation_def dict_get_dict_set_same
      dict_get_dict_set_other)

text \<open>
  Claim C2. Whenever a report is synthesized, its overall status follows the strict
  precedence: a positive merged error count gives the failed status; otherwise a positive
  warning count gives the warnings status; otherwise the status is the band of the
  resolution rate \<open>r\<close>: at least 90 EXCELLENT, at least 75 VERY\_GOOD, at least 60 GOOD, at
  least 40 PARTIAL, and POOR below.
\<close>

theorem overall_status_precedence:
  assumes "synthesize_results py_float stages = Inr syn"
  shows "\<exists>r. resolution_rate_value py_float stages = Inr r \<and>
     overall_status syn =
       (if total_errors syn > 0 then ''VALIDATION_FAILED''
        else if total_warnings syn > 0 then ''VALIDATION_WARNINGS''
        else if float_ge r 90 then ''EXCELLENT''
        else if float_ge r 75 then ''VERY_GOOD''
        else if float_ge r 60 then ''GOOD''
        else if float_ge r 40 then ''PARTIAL''
        else ''POOR'')"
proof -
  from assms obtain ei wi dr de dw r where
    rate: "resolution_rate_value py_float stages = Inr r" and
    syn: "syn = \<lparr>stage_summary =
                   map (\<lambda>(stage_name, stage_data).
                          (stage_name, dict_get_default stage_data ''status'' (PStr ''unknown'')))
                       stages,
                 validation_results = ei @ wi @ dr,
                 total_errors = length ei + de,
                 total_warnings = length wi + dw,
                 overall_status =
                   fst (status_and_recommendation (length ei + de) (length wi + dw) r),
                 recommendation =
                   snd (status_and_recommendation (length ei + de) (length wi + dw) r)\<rparr>"
    unfolding synthesize_results_def Let_def
    by (auto split: sum.splits prod.splits)
  have "overall_status syn =
       (if total_errors syn > 0 then ''VALIDATION_FAILED''
        else if total_warnings syn > 0 then ''VALIDATION_WARNINGS''
        else if float_ge r 90 then ''EXCELLENT''
        else if float_ge r 75 then ''VERY_GOOD''
        else if float_ge r 60 then ''GOOD''
        else if float_ge r 40 then ''PARTIAL''
        else ''POOR'')"
    unfolding syn status_and_recommendation_def by simp
  with rate show ?thesis by blast
qed

theorem overall_status_precedence_witness:
  "synthesize_results float_table example_stages_completed =
     Inr \<lparr>stage_summary =
            [(''fact_parsing'', PStr ''completed''),
             (''dmp_concept_resolution'', PStr ''completed''),
             (''dmp_validation'', PStr ''completed''),
             (''arelle_validation'', PStr ''completed'')],
          validation_results =
            [PDict [(''type'', PStr ''business_rule_violation''),
                    (''severity'', PStr ''error''),
                    (''message'', PStr ''[ERROR] assertion failed''),
                    (''category'', PStr ''formula''),
                    (''source'', PStr ''arelle_validation''),
                    (''line_number'', PNone),
                    (''fact_name'', PStr ''unknown'')]],
          total_errors = 1,
          total_warnings = 0,
          overall_status = ''VALIDATION_FAILED'',
          recommendation = ''Validation failed with 1 errors - review and fix issues''\<rparr>
   \<and> (\<exists>r. resolution_rate_value float_table example_stages_completed = Inr r)"
proof -
  have run: "synthesize_results float_table example_stages_completed =
     Inr \<lparr>stage_summary =
            [(''fact_parsing'', PStr ''completed''),
             (''dmp_concept_resolution'', PStr ''completed''),
             (''dmp_validation'', PStr ''completed''),
             (''arelle_validation'', PStr ''completed'')],
          validation_results =
            [PDict [(''type'', PStr ''business_rule_violation''),
                    (''severity'', PStr ''error''),
                    (''message'', PStr ''[ERROR] assertion failed''),
                    (''category'', PStr ''formula''),
                    (''source'', PStr ''arelle_validation''),
                    (''line_number'', PNone),
                    (''fact_name'', PStr ''unknown'')]],
          total_errors = 1,
          total_warnings = 0,
          overall_status = ''VALIDATION_FAILED'',
          recommendation = ''Validation failed with 1 errors - review and fix issues''\<rparr>"
    by (simp add: example_stages_completed_def synthesize_results_def arelle_issues_def
        dmp_issues_def resolution_rate_value_def stage_get_def dict_get_def
        dict_get_default_def float_table_def status_and_recommendation_def)
  from overall_status_precedence [OF run]
  have "\<exists>r. resolution_rate_value float_table example_stages_completed = Inr r"
    by (elim exE conjE) (rule exI)
  with run show ?thesis by (rule conjI)
qed

text \<open>
  What the synthesizer does with a stage of the external validator that timed out,
  whatever the other stages hold: the stage is read only under the guard
  \<open>status == 'completed'\<close>, so the report holds the issues and counts of the dictionary
  validation alone, and the timeout shows only as the status of the stage in the summary.
\<close>

lemma timeout_stage_is_skipped:
  assumes "stage_get stages ''arelle_validation''
             = merge_arelle_result base (execute_arelle_validation parse now TimeoutExpired)"
      and "dmp_issues (stage_get stages ''dmp_validation'')
             = Inr (dmp_results, dmp_errors, dmp_warnings)"
      and "resolution_rate_value py_float stages = Inr r"
  shows "dict_get (stage_get stages ''arelle_validation'') ''status'' = PStr ''timeout''
       \<and> synthesize_results py_float stages =
           Inr \<lparr>stage_summary =
                  map (\<lambda>(n, d). (n, dict_get_default d ''status'' (PStr ''unknown''))) stages,
                validation_results = dmp_results,
                total_errors = dmp_errors,
                total_warnings = dmp_warnings,
                overall_status = fst (status_and_recommendation dmp_errors dmp_warnings r),
                recommendation = snd (status_and_recommendation dmp_errors dmp_warnings r)\<rparr>"
  using assms timeout_stage_status [of base parse now]
  by (simp add: synthesize_results_def arelle_issues_def Let_def)

text \<open>
  Claim C8. When the external validator times out, the synthesized report is to hold
  exactly one error issue whose category indicates the timeout, and the run is to complete
  with a report. The run below completes, but its report does not hold that issue: the
  adapter turns the expired timeout into a stage result with status \<open>timeout\<close> and an error
  text, and the synthesizer, which reads the stage only when its status is \<open>completed\<close>,
  takes nothing from it. With full dictionary coverage the report has no issue, 0 errors
  and the overall status EXCELLENT, the same report as for a run in which the external
  validator found nothing; the timeout shows only in the stage summary.
\<close>

theorem timeout_report_has_no_issue:
  "stage_get example_stages_timeout ''arelle_validation''
     = [(''method'', PStr ''arelle_fallback''),
        (''status'', PStr ''timeout''),
        (''error'', PStr ''Arelle validation timed out after 120 seconds'')]
   \<and> synthesize_results float_table example_stages_timeout =
     Inr \<lparr>stage_summary =
            [(''fact_parsing'', PStr ''completed''),
             (''dmp_concept_resolution'', PStr ''completed''),
             (''dmp_validation'', PStr ''completed''),
             (''arelle_validation'', PStr ''timeout'')],
          validation_results = [],
          total_errors = 0,
          total_warnings = 0,
          overall_status = ''EXCELLENT'',
          recommendation = ''Outstanding DMP concept coverage - validation highly reliable''\<rparr>"
  by (simp add: example_stages_timeout_def synthesize_results_def arelle_issues_def
      dmp_issues_def resolution_rate_value_def stage_get_def dict_get_def
      dict_get_default_def float_table_def status_and_recommendation_def
      merge_arelle_result_def execute_arelle_validation_def)

subsection \<open>Architecture detector\<close>

lemma detect_body_range:
  assumes "detect_body basename parse xbrl_path = Inr arch"
  shows "arch = ''arch_1_0'' \<or> arch = ''arch_2_0''"
proof (cases "any_in arch_1_0_filename_patterns (lower (basename xbrl_path))")
  case True
  with assms show ?thesis by (simp add: detect_body_def Let_def)
next
  case False
  with assms obtain root_element where "parse xbrl_path = Inr root_element"
    by (cases "parse xbrl_path") (simp_all add: detect_body_def Let_def)
  with assms False show ?thesis
    by (simp add: detect_body_def Let_def split: if_splits)
qed

text \<open>
  Claim C3. For every path, whatever its file name is and whether or not the document
  can be parsed, the detector returns one of \<open>arch_1_0\<close>, \<open>arch_2_0\<close> and \<open>unknown\<close>; an
  exception raised while the document is read is caught and gives \<open>unknown\<close>.
\<close>

theorem detect_architecture_version_closed:
  "detect_architecture_version basename parse xbrl_path
     \<in> {''arch_1_0'', ''arch_2_0'', ''unknown''}
   \<and> (detect_body basename parse xbrl_path = Inl e
        \<longrightarrow> detect_architecture_version basename parse xbrl_path = ''unknown'')"
proof (cases "detect_body basename parse xbrl_path")
  case (Inl e')
  then show ?thesis by (simp add: detect_architecture_version_def)
next
  case (Inr arch)
  from detect_body_range [OF Inr] Inr show ?thesis
    by (auto simp: detect_architecture_version_def)
qed

theorem detect_architecture_version_closed_witness:
  "detect_body (\<lambda>path. path) (\<lambda>path. Inl (OtherError ''no such file'')) ''report.xbrl''
     = Inl (OtherError ''no such file'')
   \<and> detect_architecture_version (\<lambda>path. path) (\<lambda>path. Inl (OtherError ''no such file''))
        ''report.xbrl'' = ''unknown''"
proof -
  have name: "\<not> any_in arch_1_0_filename_patterns (lower ''report.xbrl'')"
    by (simp add: any_in_def arch_1_0_filename_patterns_def lower_def lower_char_def)
  have raised: "detect_body (\<lambda>path. path) (\<lambda>path. Inl (OtherError ''no such file''))
      ''report.xbrl'' = Inl (OtherError ''no such file'')"
    using name by (simp add: detect_body_def Let_def)
  from detect_architecture_version_closed
         [of "\<lambda>path. path" "\<lambda>path. Inl (OtherError ''no such file'')" "''report.xbrl''"
             "OtherError ''no such file''"]
  have "detect_body (\<lambda>path. path) (\<lambda>path. Inl (OtherError ''no such file'')) ''report.xbrl''
          = Inl (OtherError ''no such file'')
        \<longrightarrow> detect_architecture_version (\<lambda>path. path)
              (\<lambda>path. Inl (OtherError ''no such file'')) ''report.xbrl'' = ''unknown''"
    by (rule conjunct2)
  with raised show ?thesis by (intro conjI) (assumption, erule (1) mp)
qed

subsection \<open>Concept resolver\<close>

text \<open>A resolution changes the cache only by storing its own answer: what the resolver
  answers for any name is the same before and after.\<close>

lemma resolve_stable:
  "fst (resolve_concept_from_dmp st (snd (resolve_concept_from_dmp st concept_cache c)) k)
     = fst (resolve_concept_from_dmp st concept_cache k)"
  by (auto simp: resolve_concept_from_dmp_def split: option.splits)

lemma example_store_version: "detect_database_version example_store = dmp_4_0"
  by (simp add: detect_database_version_def example_store_def example_execute_def)

lemma example_store_simps:
  "connect example_store = None"
  "execute example_store = example_execute"
  "get_actual_table_name example_store ''tConcept'' = ''tConcept''"
  "get_actual_table_name example_store ''tMember'' = ''tMember''"
  "get_actual_table_name example_store ''tDataPoint'' = ''tDataPoint''"
  "table_available example_store ''tConcept''"
  "table_available example_store ''tMember''"
  "\<not> table_available example_store ''tDataPoint''"
  by (simp_all add: example_store_def get_actual_table_name_def table_available_def)










text \<open>
  Claim C10. When a call to resolve returns a concept for a name, the concept is stored in
  the cache under that name, and a second call with the same name on the resulting
  resolver returns the identical concept and leaves the cache as it is.
\<close>

theorem resolve_again_returns_cached:
  assumes "resolve_concept_from_dmp st concept_cache name = (Some c, concept_cache')"
  shows "concept_cache' name = Some c
       \<and> resolve_concept_from_dmp st concept_cache' name = (Some c, concept_cache')"
  using assms
  by (auto simp: resolve_concept_from_dmp_def split: option.splits)

theorem resolve_again_returns_cached_witness:
  "fst (resolve_concept_from_dmp example_store Map.empty ''eba_met:mi53'')
     = Some (concept_of_row [Some ''eba_met:mi53'', Some ''Carrying amount'',
                             Some ''Monetary'', Some ''mi53''])
   \<and> resolve_concept_from_dmp example_store
        (snd (resolve_concept_from_dmp example_store Map.empty ''eba_met:mi53''))
        ''eba_met:mi53''
     = (Some (concept_of_row [Some ''eba_met:mi53'', Some ''Carrying amount'',
                              Some ''Monetary'', Some ''mi53'']),
        snd (resolve_concept_from_dmp example_store Map.empty ''eba_met:mi53''))"
proof -
  have exact: "search_by_exact_match example_store ''eba_met:mi53''
       = Some (concept_of_row [Some ''eba_met:mi53'', Some ''Carrying amount'',
                               Some ''Monetary'', Some ''mi53''])"
    by (simp add: search_by_exact_match_def example_store_version example_store_simps
        Let_def fetch_def example_execute_def)
  have hit: "cascade example_store ''eba_met:mi53''
       = Some (concept_of_row [Some ''eba_met:mi53'', Some ''Carrying amount'',
                               Some ''Monetary'', Some ''mi53''])"
    by (simp add: cascade_def Let_def or_else_def exact)
  have first: "fst (resolve_concept_from_dmp example_store Map.empty ''eba_met:mi53'')
       = Some (concept_of_row [Some ''eba_met:mi53'', Some ''Carrying amount'',
                               Some ''Monetary'', Some ''mi53''])"
    by (simp add: resolve_concept_from_dmp_def hit)
  then have pair: "resolve_concept_from_dmp example_store Map.empty ''eba_met:mi53''
       = (Some (concept_of_row [Some ''eba_met:mi53'', Some ''Carrying amount'',
                               Some ''Monetary'', Some ''mi53'']),
          snd (resolve_concept_from_dmp example_store Map.empty ''eba_met:mi53''))"
    by (metis prod.collapse)
  from resolve_again_returns_cached [OF pair] first show ?thesis
    by (intro conjI) (assumption, erule conjunct2)
qed

subsection \<open>Reconciliation with the external validator\<close>

lemma map_fst_dict_set:
  "map fst (dict_set d k v) = (if k \<in> set (map fst d) then map fst d else map fst d @ [k])"
proof (induction d)
  case Nil
  show ?case by simp
next
  case (Cons p d)
  obtain k' v' where p: "p = (k', v')" by (cases p)
  show ?case
  proof (cases "k' = k")
    case True
    then show ?thesis by (simp add: p)
  next
    case False
    with Cons show ?thesis by (simp add: p)
  qed
qed

lemma distinct_dict_set: "distinct (map fst d) \<Longrightarrow> distinct (map fst (dict_set d k v))"
  by (simp add: map_fst_dict_set)

lemma map_of_dict_set: "map_of (dict_set d k v) = (map_of d)(k \<mapsto> v)"
  by (induction d) (auto simp: fun_eq_iff)

lemma severity_sets:
  assumes "\<And>k d. (k, d) \<in> R \<longleftrightarrow> k \<in> M \<and> g k = Some d"
  shows "(\<lambda>(k, d). (k, f d)) ` R \<union> (\<lambda>c. (c, e)) ` {c \<in> M. g c = None}
         = {(k, s). k \<in> M \<and> s = (case g k of None \<Rightarrow> e | Some d \<Rightarrow> f d)}"
proof (rule set_eqI)
  fix p :: "'a \<times> 'c"
  obtain k s where p: "p = (k, s)" by (cases p)
  show "p \<in> (\<lambda>(k, d). (k, f d)) ` R \<union> (\<lambda>c. (c, e)) ` {c \<in> M. g c = None}
        \<longleftrightarrow> p \<in> {(k, s). k \<in> M \<and> s = (case g k of None \<Rightarrow> e | Some d \<Rightarrow> f d)}"
  proof (cases "g k")
    case None
    then show ?thesis unfolding p using assms by (auto simp: image_iff)
  next
    case (Some d)
    have mem: "k \<in> M \<Longrightarrow> (k, d) \<in> R"
      using assms Some by simp
    have "(k, s) \<in> (\<lambda>(k, d). (k, f d)) ` R \<longleftrightarrow> k \<in> M \<and> s = f d"
    proof
      assume "(k, s) \<in> (\<lambda>(k, d). (k, f d)) ` R"
      then obtain d' where "(k, d') \<in> R" and "s = f d'" by auto
      with assms Some show "k \<in> M \<and> s = f d" by simp
    next
      assume "k \<in> M \<and> s = f d"
      with mem have "(k, d) \<in> R" and "s = f d" by simp_all
      then show "(k, s) \<in> (\<lambda>(k, d). (k, f d)) ` R" by force
    qed
    moreover have "(k, s) \<notin> (\<lambda>c. (c, e)) ` {c \<in> M. g c = None}"
      using Some by auto
    ultimately show ?thesis unfolding p using Some by simp
  qed
qed

lemma resolve_missing_spec:
  assumes "\<And>k. fst (resolve_concept_from_dmp st concept_cache k) = g k"
  shows "\<exists>resolved' concept_cache'.
           resolve_missing st concept_cache resolved unresolved cs
             = (resolved', unresolved @ filter (\<lambda>c. g c = None) cs, concept_cache')
         \<and> map_of resolved'
             = (\<lambda>k. if k \<in> set cs \<and> g k \<noteq> None then g k else map_of resolved k)
         \<and> (distinct (map fst resolved) \<longrightarrow> distinct (map fst resolved'))"
  using assms
proof (induction cs arbitrary: concept_cache resolved unresolved)
  case Nil
  then show ?case by simp
next
  case (Cons c cs)
  define cache1 where "cache1 = snd (resolve_concept_from_dmp st concept_cache c)"
  have r: "resolve_concept_from_dmp st concept_cache c = (g c, cache1)"
    unfolding cache1_def using Cons.prems [of c] by (metis prod.collapse)
  have same: "fst (resolve_concept_from_dmp st cache1 k) = g k" for k
    unfolding cache1_def resolve_stable by (rule Cons.prems)
  show ?case
  proof (cases "g c")
    case None
    from Cons.IH [OF same, of resolved "unresolved @ [c]"]
    obtain resolved' concept_cache' where
      run: "resolve_missing st cache1 resolved (unresolved @ [c]) cs
              = (resolved', (unresolved @ [c]) @ filter (\<lambda>c. g c = None) cs,
                 concept_cache')" and
      mo: "map_of resolved'
             = (\<lambda>k. if k \<in> set cs \<and> g k \<noteq> None then g k else map_of resolved k)" and
      dist: "distinct (map fst resolved) \<longrightarrow> distinct (map fst resolved')"
      by blast
    have step: "resolve_missing st concept_cache resolved unresolved (c # cs)
        = resolve_missing st cache1 resolved (unresolved @ [c]) cs"
      using r None by (simp split: prod.splits option.splits)
    have mo': "map_of resolved'
             = (\<lambda>k. if k \<in> set (c # cs) \<and> g k \<noteq> None then g k else map_of resolved k)"
      unfolding mo using None by (auto simp: fun_eq_iff)
    show ?thesis
      using step run mo' dist None by simp
  next
    case (Some d)
    from Cons.IH [OF same, of "dict_set resolved c d" unresolved]
    obtain resolved' concept_cache' where
      run: "resolve_missing st cache1 (dict_set resolved c d) unresolved cs
              = (resolved', unresolved @ filter (\<lambda>c. g c = None) cs, concept_cache')" and
      mo: "map_of resolved'
             = (\<lambda>k. if k \<in> set cs \<and> g k \<noteq> None then g k
                    else map_of (dict_set resolved c d) k)" and
      dist: "distinct (map fst (dict_set resolved c d)) \<longrightarrow> distinct (map fst resolved')"
      by blast
    have step: "resolve_missing st concept_cache resolved unresolved (c # cs)
        = resolve_missing st cache1 (dict_set resolved c d) unresolved cs"
      using r Some by (simp split: prod.splits option.splits)
    have mo': "map_of resolved'
             = (\<lambda>k. if k \<in> set (c # cs) \<and> g k \<noteq> None then g k else map_of resolved k)"
      unfolding mo using Some by (auto simp: fun_eq_iff map_of_dict_set)
    have dist': "distinct (map fst resolved) \<longrightarrow> distinct (map fst resolved')"
    proof
      assume "distinct (map fst resolved)"
      then have "distinct (map fst (dict_set resolved c d))"
        by (rule distinct_dict_set)
      with dist show "distinct (map fst resolved')" by simp
    qed
    show ?thesis
      using step run mo' dist' Some by simp
  qed
qed

lemma resolved_entries_severity:
  "map (\<lambda>e. (err_concept e, err_severity e)) (map fst (resolved_entries n resolved))
     = map (\<lambda>(k, d). (k, if source d = ''tMember'' then ''info'' else ''warning'')) resolved"
proof (induction n resolved rule: resolved_entries.induct)
  case (1 issue_id)
  show ?case by simp
next
  case (2 issue_id c dmp_concept rest)
  have head: "(\<lambda>e. (err_concept e, err_severity e)) (fst (resolved_entry issue_id c dmp_concept))
      = (c, if source dmp_concept = ''tMember'' then ''info'' else ''warning'')"
    unfolding resolved_entry_def Let_def by (simp del: show_nat.simps)
  from 2 head show ?case by (simp del: show_nat.simps)
qed

lemma unresolved_entries_severity:
  "map (\<lambda>e. (err_concept e, err_severity e)) (map fst (unresolved_entries n unresolved))
     = map (\<lambda>c. (c, ''error'')) unresolved"
proof (induction n unresolved rule: unresolved_entries.induct)
  case (1 issue_id)
  show ?case by simp
next
  case (2 issue_id c rest)
  have head: "(\<lambda>e. (err_concept e, err_severity e)) (fst (unresolved_entry issue_id c))
      = (c, ''error'')"
    unfolding unresolved_entry_def by (simp del: show_nat.simps)
  from 2 head show ?case by (simp del: show_nat.simps)
qed

lemma errors_of_missing:
  "(\<lambda>e. (err_concept e, err_severity e))
     ` set (fst (process_missing_concepts st concept_cache missing))
   = {(k, sev). k \<in> set missing \<and>
        sev = (case fst (resolve_concept_from_dmp st concept_cache k) of
                 None \<Rightarrow> ''error''
               | Some d \<Rightarrow> if source d = ''tMember'' then ''info'' else ''warning'')}"
proof -
  define g where "g k = fst (resolve_concept_from_dmp st concept_cache k)" for k
  have g: "fst (resolve_concept_from_dmp st concept_cache k) = g k" for k
    by (simp only: g_def)
  from resolve_missing_spec [of st concept_cache g "[]" "[]" missing, OF g]
  obtain resolved' concept_cache' where
    run0: "resolve_missing st concept_cache [] [] missing
            = (resolved', [] @ filter (\<lambda>c. g c = None) missing, concept_cache')" and
    mo0: "map_of resolved'
           = (\<lambda>k. if k \<in> set missing \<and> g k \<noteq> None then g k else map_of [] k)" and
    dist0: "distinct (map fst ([] :: (string \<times> concept) list)) \<longrightarrow> distinct (map fst resolved')"
    by blast
  from run0 have run: "resolve_missing st concept_cache [] [] missing
            = (resolved', filter (\<lambda>c. g c = None) missing, concept_cache')"
    by simp
  have mo: "map_of resolved' k = (if k \<in> set missing \<and> g k \<noteq> None then g k else None)" for k
    unfolding mo0 by simp
  from dist0 have dist: "distinct (map fst resolved')"
    by simp
  have mem: "(k, d) \<in> set resolved' \<longleftrightarrow> k \<in> set missing \<and> g k = Some d" for k d
  proof -
    have "(k, d) \<in> set resolved' \<longleftrightarrow> map_of resolved' k = Some d"
      using dist by simp
    also have "\<dots> \<longleftrightarrow> k \<in> set missing \<and> g k = Some d"
      unfolding mo by (cases "g k") simp_all
    finally show ?thesis .
  qed
  have "(\<lambda>e. (err_concept e, err_severity e))
           ` set (fst (process_missing_concepts st concept_cache missing))
        = set (map (\<lambda>e. (err_concept e, err_severity e))
                 (map fst (resolved_entries 1 resolved')))
          \<union> set (map (\<lambda>e. (err_concept e, err_severity e))
                 (map fst (unresolved_entries (1 + length resolved')
                             (filter (\<lambda>c. g c = None) missing))))"
    unfolding process_missing_concepts_def run Let_def
    by (simp only: prod.case fst_conv set_append image_Un set_map)
  also have "\<dots> = (\<lambda>(k, d). (k, if source d = ''tMember'' then ''info'' else ''warning''))
                     ` set resolved'
                   \<union> (\<lambda>c. (c, ''error'')) ` {c \<in> set missing. g c = None}"
    unfolding resolved_entries_severity unresolved_entries_severity
    by (simp only: set_map set_filter)
  also have "\<dots> = {(k, sev). k \<in> set missing \<and>
              sev = (case g k of
                       None \<Rightarrow> ''error''
                     | Some d \<Rightarrow> if source d = ''tMember'' then ''info'' else ''warning'')}"
    by (rule severity_sets) (rule mem)
  finally show ?thesis
    by (simp only: g_def)
qed

lemma example_cascade_concept:
  "cascade example_store ''eba_met:mi53''
     = Some (concept_of_row [Some ''eba_met:mi53'', Some ''Carrying amount'',
                             Some ''Monetary'', Some ''mi53''])"
  by (simp add: cascade_def Let_def or_else_def search_by_exact_match_def
      example_store_version example_store_simps fetch_def example_execute_def)

lemma example_cascade_member:
  "cascade example_store ''eba_GA:x1''
     = Some (member_of_row [Some ''x1'', Some ''eba_GA:x1'', Some ''Spain''] ''exact match'')"
proof -
  have clean: "clean_concept_name ''eba_GA:x1'' = ''x1''"
    by (simp add: clean_concept_name_def has_colon_def after_first_colon_def)
  have exact: "search_by_exact_match example_store ''eba_GA:x1'' = None"
    by (simp add: search_by_exact_match_def example_store_version example_store_simps
        Let_def fetch_def example_execute_def)
  have by_clean: "search_by_clean_name example_store ''x1'' = None"
    by (simp add: search_by_clean_name_def example_store_version example_store_simps
        Let_def fetch_def example_execute_def like_pattern_def)
  have variants: "search_by_prefix_variants example_store ''eba_GA:x1'' = None"
    by (simp add: search_by_prefix_variants_def example_store_version example_store_simps
        Let_def fetch_def example_execute_def has_colon_def before_first_colon_def
        after_first_colon_def prefix_variants_def prefix_mappings_def)
  have partial: "search_by_partial_match example_store ''x1'' = None"
    by (simp add: search_by_partial_match_def example_store_version example_store_simps
        Let_def fetch_def example_execute_def like_pattern_def upper_def lower_def
        upper_char_def lower_char_def)
  have member: "search_in_member_table example_store ''eba_GA:x1''
      = Some (member_of_row [Some ''x1'', Some ''eba_GA:x1'', Some ''Spain''] ''exact match'')"
    by (simp add: search_in_member_table_def example_store_simps Let_def fetch_def
        example_execute_def clean)
  show ?thesis
    unfolding cascade_def Let_def clean exact by_clean variants partial member
    by (simp add: or_else_def)
qed

text \<open>
  The severity of every entry that \<open>process_arelle_output\<close> records for a concept reported
  missing is decided by what the resolver answers for the name, the same answer throughout
  the run: error when the name is not resolved, info when it is resolved through the
  member table, warning when it is resolved through any other table.
\<close>

lemma missing_concept_severity:
  assumes "c \<in> set missing"
  shows "(\<exists>e \<in> set (fst (process_missing_concepts st concept_cache missing)). err_concept e = c)
       \<and> (\<forall>e \<in> set (fst (process_missing_concepts st concept_cache missing)).
            err_concept e = c \<longrightarrow>
            err_severity e =
              (case fst (resolve_concept_from_dmp st concept_cache c) of
                 None \<Rightarrow> ''error''
               | Some d \<Rightarrow> if source d = ''tMember'' then ''info'' else ''warning''))"
proof -
  let ?E = "set (fst (process_missing_concepts st concept_cache missing))"
  let ?s = "case fst (resolve_concept_from_dmp st concept_cache c) of
              None \<Rightarrow> ''error''
            | Some d \<Rightarrow> if source d = ''tMember'' then ''info'' else ''warning''"
  note eq = errors_of_missing [of st concept_cache missing]
  have "(c, ?s) \<in> (\<lambda>e. (err_concept e, err_severity e)) ` ?E"
    unfolding eq using assms by simp
  then obtain e where e: "e \<in> ?E" and "(c, ?s) = (err_concept e, err_severity e)"
    by (rule imageE)
  then have "err_concept e = c" by simp
  with e have ex: "\<exists>e \<in> ?E. err_concept e = c" by (rule bexI [rotated])
  have all: "\<forall>e \<in> ?E. err_concept e = c \<longrightarrow> err_severity e = ?s"
  proof (intro ballI impI)
    fix e assume "e \<in> ?E" and c: "err_concept e = c"
    then have "(err_concept e, err_severity e) \<in> (\<lambda>e. (err_concept e, err_severity e)) ` ?E"
      by (rule_tac imageI)
    then have "(c, err_severity e) \<in> {(k, sev). k \<in> set missing \<and>
              sev = (case fst (resolve_concept_from_dmp st concept_cache k) of
                       None \<Rightarrow> ''error''
                     | Some d \<Rightarrow> if source d = ''tMember'' then ''info'' else ''warning'')}"
      unfolding eq c .
    then show "err_severity e = ?s" by simp
  qed
  from ex all show ?thesis by (rule conjI)
qed

text \<open>
  Claim C1. A concept that the external validator reports as missing and that the
  resolver resolves is to be recorded with severity warning, never error, and one that
  stays unresolved with severity error. In the run below the validator reports two
  concepts as missing and a fresh resolver resolves both: \<open>eba_met:mi53\<close> through the
  concept table, which is recorded with severity warning, and \<open>eba_GA:x1\<close> through the
  member table, which is recorded with severity info, not warning.
\<close>

theorem member_resolution_recorded_as_info:
  "fst (resolve_concept_from_dmp example_store Map.empty ''eba_GA:x1'')
     = Some (member_of_row [Some ''x1'', Some ''eba_GA:x1'', Some ''Spain''] ''exact match'')
   \<and> map (\<lambda>e. (err_concept e, err_severity e))
         (fst (process_missing_concepts example_store Map.empty
                 [''eba_met:mi53'', ''eba_GA:x1'']))
       = [(''eba_met:mi53'', ''warning''), (''eba_GA:x1'', ''info'')]"
proof -
  let ?a = "concept_of_row [Some ''eba_met:mi53'', Some ''Carrying amount'',
                            Some ''Monetary'', Some ''mi53'']"
  let ?m = "member_of_row [Some ''x1'', Some ''eba_GA:x1'', Some ''Spain''] ''exact match''"
  have first: "fst (resolve_concept_from_dmp example_store Map.empty ''eba_GA:x1'') = Some ?m"
    by (simp add: resolve_concept_from_dmp_def example_cascade_member)
  have "\<exists>concept_cache'.
      resolve_missing example_store Map.empty [] [] [''eba_met:mi53'', ''eba_GA:x1'']
      = ([(''eba_met:mi53'', ?a), (''eba_GA:x1'', ?m)], [], concept_cache')"
    by (simp add: resolve_concept_from_dmp_def example_cascade_concept example_cascade_member)
  then obtain concept_cache' where
    run: "resolve_missing example_store Map.empty [] [] [''eba_met:mi53'', ''eba_GA:x1'']
      = ([(''eba_met:mi53'', ?a), (''eba_GA:x1'', ?m)], [], concept_cache')"
    by (rule exE)
  have src: "source ?a = ''tConcept''" "source ?m = ''tMember''"
    by (simp_all add: concept_of_row_def member_of_row_def)
  have "map (\<lambda>e. (err_concept e, err_severity e))
         (fst (process_missing_concepts example_store Map.empty
                 [''eba_met:mi53'', ''eba_GA:x1'']))
       = map (\<lambda>e. (err_concept e, err_severity e))
           (map fst (resolved_entries 1 [(''eba_met:mi53'', ?a), (''eba_GA:x1'', ?m)]))"
    unfolding process_missing_concepts_def run Let_def
    by (simp del: show_nat.simps resolved_entries.simps)
  also have "\<dots> = [(''eba_met:mi53'', ''warning''), (''eba_GA:x1'', ''info'')]"
    unfolding resolved_entries_severity by (simp add: src)
  finally show ?thesis using first by simp
qed

subsection \<open>Concept resolution stage\<close>

lemma pow2_pos: "0 < pow2 k"
  by (simp add: pow2_def)

lemma pow2_neg: "pow2 (- int k) = 1 / 2 ^ k"
  by (cases "k = 0") (simp_all add: pow2_def)

lemma pow2_nonneg: "pow2 (int k) = 2 ^ k"
  by (simp add: pow2_def)

lemma flog2_le: "1 \<le> x \<Longrightarrow> 2 ^ flog2 x \<le> x"
proof (induction x rule: flog2.induct)
  case (1 x)
  show ?case
  proof (cases "x < 2")
    case True
    then have "flog2 x = 0" by (simp add: flog2.simps)
    with "1.prems" show ?thesis by simp
  next
    case False
    then have "1 \<le> x / 2" by simp
    with "1.IH" False have "2 ^ flog2 (x / 2) \<le> x / 2" by simp
    then have "2 * 2 ^ flog2 (x / 2) \<le> x" by simp
    moreover have "flog2 x = Suc (flog2 (x / 2))" using False by (simp add: flog2.simps)
    ultimately show ?thesis by simp
  qed
qed

lemma clog2_ge: "y \<le> 2 ^ clog2 y"
proof (induction y rule: clog2.induct)
  case (1 y)
  show ?case
  proof (cases "y \<le> 1")
    case True
    then have "clog2 y = 0" by (simp add: clog2.simps)
    with True show ?thesis by simp
  next
    case False
    with "1.IH" have "y / 2 \<le> 2 ^ clog2 (y / 2)" by simp
    then have "y \<le> 2 * 2 ^ clog2 (y / 2)" by simp
    moreover have "clog2 y = Suc (clog2 (y / 2))" using False by (simp add: clog2.simps)
    ultimately show ?thesis by simp
  qed
qed

lemma pow2_floor_log2_le:
  assumes "0 < x"
  shows "pow2 (floor_log2 x) \<le> x"
proof (cases "1 \<le> x")
  case True
  then show ?thesis by (simp add: floor_log2_def pow2_nonneg flog2_le)
next
  case False
  have "1 / x \<le> 2 ^ clog2 (1 / x)" by (rule clog2_ge)
  with assms have "1 \<le> x * 2 ^ clog2 (1 / x)"
    by (simp add: field_simps)
  then have "1 / 2 ^ clog2 (1 / x) \<le> x"
    by (simp add: field_simps)
  with False show ?thesis by (simp add: floor_log2_def pow2_neg)
qed

lemma round_half_even_error: "\<bar>of_int (round_half_even x) - x\<bar> \<le> 1 / 2"
proof -
  define f where "f = \<lfloor>x\<rfloor>"
  define r where "r = x - of_int f"
  have lo: "0 \<le> r" and hi: "r < 1"
    unfolding r_def f_def by linarith+
  have x: "x = of_int f + r"
    unfolding r_def by simp
  have val: "round_half_even x =
      (if r < 1 / 2 then f else if 1 / 2 < r then f + 1 else if even f then f else f + 1)"
    unfolding round_half_even_def Let_def f_def r_def by (rule refl)
  consider "r < 1 / 2" | "1 / 2 < r" | "r = 1 / 2" by linarith
  then show ?thesis
  proof cases
    case 1
    then have "round_half_even x = f" unfolding val by simp
    with 1 lo show ?thesis unfolding x by simp
  next
    case 2
    then have "round_half_even x = f + 1" unfolding val by simp
    with 2 hi show ?thesis unfolding x by simp
  next
    case 3
    then have "round_half_even x = f \<or> round_half_even x = f + 1" unfolding val by simp
    with 3 show ?thesis unfolding x by auto
  qed
qed

lemma pow2_diff: "pow2 (k - int n) = pow2 k / 2 ^ n"
proof (cases "0 \<le> k - int n")
  case True
  then have k: "0 \<le> k" and n: "n \<le> nat k" by simp_all
  then have "nat (k - int n) = nat k - n" by simp
  with True k n show ?thesis
    by (simp add: pow2_def power_diff)
next
  case False
  show ?thesis
  proof (cases "0 \<le> k")
    case True
    with False have lt: "nat k < n" by simp
    have "nat (- (k - int n)) = n - nat k" using True by simp
    moreover have "(2::rat) ^ n = 2 ^ nat k * 2 ^ (n - nat k)"
      using lt by (simp flip: power_add)
    ultimately show ?thesis using False True by (simp add: pow2_def)
  next
    case k: False
    then have "nat (- (k - int n)) = nat (- k) + n" by simp
    with False k show ?thesis by (simp add: pow2_def power_add)
  qed
qed

text \<open>The error of one rounding to double, for a value in the range of normal and
  subnormal doubles.\<close>

lemma round_to_double_error:
  "\<bar>round_to_double x - x\<bar> \<le> max (\<bar>x\<bar> / 2 ^ 53) (pow2 (- 1075))"
proof (cases "x = 0")
  case True
  then show ?thesis by (simp add: round_to_double_def pow2_def)
next
  case False
  define e where "e = max (floor_log2 \<bar>x\<bar> - 52) (- 1074)"
  define m where "m = round_half_even (\<bar>x\<bar> / pow2 e)"
  have p: "0 < pow2 e" by (rule pow2_pos)
  have val: "round_to_double x = sgn x * of_int m * pow2 e"
    using False unfolding round_to_double_def Let_def e_def m_def by simp
  have "\<bar>round_to_double x - x\<bar> = \<bar>of_int m * pow2 e - \<bar>x\<bar>\<bar>"
  proof (cases "0 < x")
    case True
    then show ?thesis unfolding val by simp
  next
    case neg: False
    with False have "x < 0" by simp
    then have "round_to_double x - x = - (of_int m * pow2 e - \<bar>x\<bar>)"
      unfolding val by simp
    then show ?thesis by (simp only: abs_minus)
  qed
  also have "\<dots> = \<bar>of_int m - \<bar>x\<bar> / pow2 e\<bar> * pow2 e"
  proof -
    have "of_int m * pow2 e - \<bar>x\<bar> = (of_int m - \<bar>x\<bar> / pow2 e) * pow2 e"
      using p by (simp add: left_diff_distrib)
    then have "\<bar>of_int m * pow2 e - \<bar>x\<bar>\<bar> = \<bar>of_int m - \<bar>x\<bar> / pow2 e\<bar> * \<bar>pow2 e\<bar>"
      by (simp only: abs_mult)
    with p show ?thesis by (simp only: abs_of_pos)
  qed
  also have "\<dots> \<le> (1 / 2) * pow2 e"
    using round_half_even_error [of "\<bar>x\<bar> / pow2 e"] p
    unfolding m_def by (intro mult_right_mono) simp_all
  finally have bound: "\<bar>round_to_double x - x\<bar> \<le> pow2 e / 2" by simp
  show ?thesis
  proof (cases "floor_log2 \<bar>x\<bar> - 52 \<le> - 1074")
    case True
    then have "e = - 1074" unfolding e_def by simp
    then have "pow2 e / 2 = pow2 (- 1075)"
      using pow2_diff [of "- 1074" 1] by simp
    with bound have "\<bar>round_to_double x - x\<bar> \<le> pow2 (- 1075)" by (simp only:)
    then show ?thesis by (simp only: le_max_iff_disj simp_thms)
  next
    case large: False
    then have "e = floor_log2 \<bar>x\<bar> - int 52" unfolding e_def by simp
    then have "pow2 e = pow2 (floor_log2 \<bar>x\<bar>) / 2 ^ 52"
      by (simp only: pow2_diff)
    also have "\<dots> \<le> \<bar>x\<bar> / 2 ^ 52"
      using pow2_floor_log2_le [of "\<bar>x\<bar>"] False by (simp add: divide_right_mono)
    finally have "pow2 e / 2 \<le> \<bar>x\<bar> / 2 ^ 53" by simp
    with bound have "\<bar>round_to_double x - x\<bar> \<le> \<bar>x\<bar> / 2 ^ 53" by (rule order_trans)
    then show ?thesis by (simp only: le_max_iff_disj simp_thms)
  qed
qed


lemma round_half_even_nonneg: "0 \<le> x \<Longrightarrow> 0 \<le> round_half_even x"
  by (simp add: round_half_even_def Let_def)

lemma round_to_double_nonneg:
  assumes "0 \<le> x"
  shows "0 \<le> round_to_double x"
proof (cases "x = 0")
  case True
  then show ?thesis by (simp add: round_to_double_def)
next
  case False
  with assms have pos: "0 < x" by simp
  define e where "e = max (floor_log2 \<bar>x\<bar> - 52) (- 1074)"
  have val: "round_to_double x = of_int (round_half_even (x / pow2 e)) * pow2 e"
    using pos unfolding round_to_double_def Let_def e_def by simp
  have "0 \<le> x / pow2 e"
    using pos pow2_pos [of e] by simp
  then have "0 \<le> round_half_even (x / pow2 e)"
    by (rule round_half_even_nonneg)
  then have "(0::rat) \<le> of_int (round_half_even (x / pow2 e))"
    by simp
  then show ?thesis
    unfolding val using pow2_pos [of e] by (intro mult_nonneg_nonneg) simp_all
qed

lemma tiny_pow2: "pow2 (- 1075) \<le> 1 / 2 ^ 53"
proof -
  have "pow2 (- int 1075) = 1 / 2 ^ 1075"
    by (rule pow2_neg)
  moreover have "(1::rat) / 2 ^ 1075 \<le> 1 / 2 ^ 53"
    by (intro divide_left_mono power_increasing) simp_all
  ultimately show ?thesis by simp
qed

lemma half_gap:
  fixes D N B :: int
  assumes B: "0 < B"
      and near: "\<bar>of_int D - (of_int N / of_int B :: rat)\<bar> < 1 / 2 + 1 / (2 * of_int B)"
  shows "\<bar>of_int D - (of_int N / of_int B :: rat)\<bar> \<le> 1 / 2"
proof -
  let ?t = "of_int D - (of_int N / of_int B :: rat)"
  have Bq: "(0::rat) < of_int B" using B by simp
  have eq: "(of_int (2 * D * B - 2 * N) :: rat) = 2 * of_int B * ?t"
    using Bq by (simp add: field_simps)
  have "\<bar>(of_int (2 * D * B - 2 * N) :: rat)\<bar> = 2 * of_int B * \<bar>?t\<bar>"
    unfolding eq abs_mult using Bq by simp
  also have "\<dots> < 2 * of_int B * (1 / 2 + 1 / (2 * of_int B))"
    using near Bq by (intro mult_strict_left_mono) simp_all
  also have "\<dots> = of_int (B + 1)"
    using Bq by (simp add: field_simps)
  finally have "(of_int \<bar>2 * D * B - 2 * N\<bar> :: rat) < of_int (B + 1)"
    by (simp only: of_int_abs)
  then have "\<bar>2 * D * B - 2 * N\<bar> < B + 1"
    by (simp only: of_int_less_iff)
  then have "\<bar>2 * D * B - 2 * N\<bar> \<le> B"
    by simp
  then have "(of_int \<bar>2 * D * B - 2 * N\<bar> :: rat) \<le> of_int B"
    by (simp only: of_int_le_iff)
  then have "2 * of_int B * \<bar>?t\<bar> \<le> (of_int B :: rat)"
    unfolding of_int_abs eq abs_mult using Bq by simp
  then show ?thesis
    using Bq by (simp add: field_simps)
qed


lemma product_error:
  fixes x0 :: rat
  assumes "0 \<le> x0" and "x0 \<le> 1"
  shows "0 \<le> round_to_double x0"
    and "round_to_double x0 \<le> 2"
    and "0 \<le> round_to_double (round_to_double x0 * 100)"
    and "round_to_double (round_to_double x0 * 100) \<le> 256"
    and "\<bar>round_to_double (round_to_double x0 * 100) - 100 * x0\<bar> \<le> 1 / 2 ^ 45"
proof -
  define q where "q = round_to_double x0"
  define p where "p = round_to_double (q * 100)"
  have "\<bar>q - x0\<bar> \<le> max (\<bar>x0\<bar> / 2 ^ 53) (pow2 (- 1075))"
    unfolding q_def by (rule round_to_double_error)
  also have "\<dots> \<le> 1 / 2 ^ 53"
  proof (rule max.boundedI)
    have "\<bar>x0\<bar> \<le> 1" using assms by simp
    then show "\<bar>x0\<bar> / 2 ^ 53 \<le> 1 / 2 ^ 53" by (rule divide_right_mono) simp
  qed (rule tiny_pow2)
  finally have q_err: "\<bar>q - x0\<bar> \<le> 1 / 2 ^ 53" .
  have q0: "0 \<le> q"
    unfolding q_def using assms(1) by (rule round_to_double_nonneg)
  have "q \<le> x0 + 1 / 2 ^ 53" using q_err by linarith
  also have "\<dots> \<le> 1 + 1 / 2 ^ 53" using assms(2) by simp
  finally have q1: "q \<le> 1 + 1 / 2 ^ 53" .
  then have q2: "q \<le> 2" by simp
  have "\<bar>p - q * 100\<bar> \<le> max (\<bar>q * 100\<bar> / 2 ^ 53) (pow2 (- 1075))"
    unfolding p_def by (rule round_to_double_error)
  also have "\<dots> \<le> 1 / 2 ^ 46"
  proof (rule max.boundedI)
    have "\<bar>q * 100\<bar> \<le> 128" using q0 q1 by simp
    then have "\<bar>q * 100\<bar> / 2 ^ 53 \<le> 128 / 2 ^ 53" by (rule divide_right_mono) simp
    then show "\<bar>q * 100\<bar> / 2 ^ 53 \<le> 1 / 2 ^ 46" by simp
  next
    have "pow2 (- 1075) \<le> 1 / 2 ^ 53" by (rule tiny_pow2)
    then show "pow2 (- 1075) \<le> 1 / 2 ^ 46" by simp
  qed
  finally have p_err: "\<bar>p - q * 100\<bar> \<le> 1 / 2 ^ 46" .
  have p0: "0 \<le> p"
    unfolding p_def using q0 by (intro round_to_double_nonneg) simp
  have "p \<le> q * 100 + 1 / 2 ^ 46" using p_err by linarith
  also have "\<dots> \<le> 256" using q2 by simp
  finally have p1: "p \<le> 256" .
  have "\<bar>p - 100 * x0\<bar> = \<bar>(p - q * 100) + 100 * (q - x0)\<bar>"
    by (simp add: algebra_simps)
  also have "\<dots> \<le> \<bar>p - q * 100\<bar> + \<bar>100 * (q - x0)\<bar>"
    by (rule abs_triangle_ineq)
  also have "\<dots> = \<bar>p - q * 100\<bar> + 100 * \<bar>q - x0\<bar>"
    by (simp only: abs_mult abs_numeral)
  also have "\<dots> \<le> 1 / 2 ^ 46 + 100 * (1 / 2 ^ 53)"
    using p_err q_err by (intro add_mono mult_left_mono) simp_all
  also have "\<dots> \<le> 1 / 2 ^ 45" by simp
  finally have err: "\<bar>p - 100 * x0\<bar> \<le> 1 / 2 ^ 45" .
  show "0 \<le> round_to_double x0" using q0 by (simp only: q_def)
  show "round_to_double x0 \<le> 2" using q2 by (simp only: q_def)
  show "0 \<le> round_to_double (round_to_double x0 * 100)" using p0 by (simp only: p_def q_def)
  show "round_to_double (round_to_double x0 * 100) \<le> 256" using p1 by (simp only: p_def q_def)
  show "\<bar>round_to_double (round_to_double x0 * 100) - 100 * x0\<bar> \<le> 1 / 2 ^ 45"
    using err by (simp only: p_def q_def)
qed

lemma rate_text_value:
  assumes "0 < business" and "resolved \<le> business"
  shows "resolution_rate_text resolved business
         = Inr (show_nat (nat (round_half_even
                   (round_to_double (round_to_double (of_nat resolved / of_nat business) * 100)
                      * 10)) div 10)
                @ ''.''
                @ show_nat (nat (round_half_even
                   (round_to_double (round_to_double (of_nat resolved / of_nat business) * 100)
                      * 10)) mod 10)
                @ ''%'')"
proof -
  define x0 :: rat where "x0 = of_nat resolved / of_nat business"
  define q where "q = round_to_double x0"
  define p where "p = round_to_double (q * 100)"
  have x0: "0 \<le> x0" "x0 \<le> 1"
    using assms by (simp_all add: x0_def)
  note b = product_error [OF x0, folded q_def, folded p_def]
  have big: "(256::rat) < 2 ^ 1024"
  proof -
    have "(2::rat) ^ 8 < 2 ^ 1024" by (rule power_strict_increasing) simp_all
    then show ?thesis by simp
  qed
  have q_small: "\<not> 2 ^ 1024 \<le> \<bar>q\<bar>"
    using b(1,2) big by linarith
  have div: "int_truediv (int resolved) (int business) = Inr q"
    using assms(1) q_small unfolding int_truediv_def Let_def q_def x0_def
    by (simp del: power_numeral)
  have p_small: "\<not> 2 ^ 1024 \<le> p" "\<not> p \<le> - (2 ^ 1024)"
    using b(3,4) big by linarith+
  have mul: "float_mul q 100 = Finite p"
    using p_small unfolding float_mul_def Let_def p_def
    by (simp del: power_numeral)
  have fmt: "format_1f (Finite p)
      = show_nat (nat (round_half_even (p * 10)) div 10) @ ''.''
        @ show_nat (nat (round_half_even (p * 10)) mod 10)"
    using b(3) unfolding format_1f_def Let_def
    by (simp del: show_nat.simps)
  have "resolution_rate_text resolved business
         = Inr (show_nat (nat (round_half_even (p * 10)) div 10) @ ''.''
                @ show_nat (nat (round_half_even (p * 10)) mod 10) @ ''%'')"
    using assms(1) by (simp add: resolution_rate_text_def div mul fmt del: show_nat.simps)
  then show ?thesis
    unfolding p_def q_def x0_def .
qed

lemma rate_text_near:
  assumes "0 < business" and "resolved \<le> business" and "business < 2 ^ 40"
  shows "\<bar>of_int (round_half_even
             (round_to_double (round_to_double (of_nat resolved / of_nat business) * 100) * 10))
           / 10
         - 100 * of_nat resolved / (of_nat business :: rat)\<bar> \<le> 1 / 20"
proof -
  define x0 :: rat where "x0 = of_nat resolved / of_nat business"
  define p where "p = round_to_double (round_to_double x0 * 100)"
  define D where "D = round_half_even (p * 10)"
  have x0: "0 \<le> x0" "x0 \<le> 1"
    using assms by (simp_all add: x0_def)
  note b = product_error [OF x0, folded p_def]
  have Bq: "(0::rat) < of_nat business" using assms(1) by simp
  have "\<bar>of_int D - p * 10\<bar> \<le> 1 / 2"
    unfolding D_def by (rule round_half_even_error)
  moreover have "\<bar>p * 10 - 1000 * x0\<bar> \<le> 10 * (1 / 2 ^ 45)"
    using b(5) by linarith
  ultimately have close: "\<bar>of_int D - 1000 * x0\<bar> \<le> 1 / 2 + 10 / 2 ^ 45"
    by linarith
  have "(of_nat business :: rat) < 2 ^ 40"
    using assms(3) by (metis of_nat_less_iff of_nat_numeral of_nat_power)
  then have "20 * (of_nat business :: rat) < 20 * 2 ^ 40" by simp
  also have "\<dots> < 2 ^ 45" by simp
  finally have "10 / 2 ^ 45 * (2 * (of_nat business :: rat)) < 1" by simp
  then have gap: "10 / 2 ^ 45 < 1 / (2 * (of_nat business :: rat))"
    using Bq by (simp add: field_simps)
  have frac: "1000 * x0 = of_int (1000 * int resolved) / of_int (int business)"
    by (simp add: x0_def)
  have "\<bar>of_int D - (of_int (1000 * int resolved) / of_int (int business) :: rat)\<bar>
        < 1 / 2 + 1 / (2 * of_int (int business))"
    using close gap unfolding frac by simp
  with assms(1) have "\<bar>of_int D - (of_int (1000 * int resolved) / of_int (int business) :: rat)\<bar>
        \<le> 1 / 2"
    by (intro half_gap) simp_all
  then have "\<bar>of_int D - 1000 * x0\<bar> \<le> 1 / 2"
    by (simp only: frac)
  then have "\<bar>of_int D / 10 - 100 * x0\<bar> \<le> 1 / 20"
    by linarith
  then show ?thesis
    unfolding D_def p_def x0_def by simp
qed

lemma rate_text_spec:
  assumes "0 < business" and "resolved \<le> business" and "business < 2 ^ 40"
  shows "\<exists>whole tenth. tenth < 10
           \<and> resolution_rate_text resolved business
               = Inr (show_nat whole @ ''.'' @ show_nat tenth @ ''%'')
           \<and> \<bar>of_nat whole + of_nat tenth / 10
                - 100 * of_nat resolved / (of_nat business :: rat)\<bar> \<le> 1 / 20"
proof -
  define D where "D = round_half_even
      (round_to_double (round_to_double (of_nat resolved / of_nat business) * 100) * 10)"
  have x0: "(0::rat) \<le> of_nat resolved / of_nat business"
       "of_nat resolved / of_nat business \<le> (1::rat)"
    using assms by simp_all
  have "0 \<le> round_to_double (round_to_double (of_nat resolved / of_nat business) * 100) * 10"
    using product_error(3) [OF x0] by simp
  then have D0: "0 \<le> D"
    unfolding D_def by (rule round_half_even_nonneg)
  have shown: "resolution_rate_text resolved business
      = Inr (show_nat (nat D div 10) @ ''.'' @ show_nat (nat D mod 10) @ ''%'')"
    unfolding D_def using assms(1,2) by (rule rate_text_value)
  have near: "\<bar>of_int D / 10 - 100 * of_nat resolved / (of_nat business :: rat)\<bar> \<le> 1 / 20"
    unfolding D_def using assms by (rule rate_text_near)
  have "nat D = 10 * (nat D div 10) + nat D mod 10"
    by simp
  then have "(of_nat (nat D) :: rat) = of_nat (10 * (nat D div 10) + nat D mod 10)"
    by (rule arg_cong)
  then have "(of_nat (nat D) :: rat) = 10 * of_nat (nat D div 10) + of_nat (nat D mod 10)"
    by (simp only: of_nat_add of_nat_mult of_nat_numeral)
  moreover have "(of_nat (nat D) :: rat) = of_int D"
    using D0 by simp
  ultimately have split: "of_nat (nat D div 10) + of_nat (nat D mod 10) / 10 = (of_int D / 10 :: rat)"
    by simp
  have digit: "nat D mod 10 < 10"
    by simp
  from digit shown near show ?thesis
    unfolding split [symmetric] by (intro exI conjI)
qed

lemma resolve_facts_counts:
  assumes "resolve_facts st concept_cache results facts = Inr (results', concept_cache')"
      and "resolved_facts results \<le> business_facts results"
  shows "resolved_facts results' \<le> business_facts results'
       \<and> business_facts results' \<le> business_facts results + length facts"
  using assms
proof (induction facts arbitrary: concept_cache results)
  case Nil
  then show ?case by simp
next
  case (Cons f rest)
  obtain fact_name fact_data where f: "f = (fact_name, fact_data)"
    by (cases f)
  let ?hit = "results\<lparr>business_facts := business_facts results + 1,
                       resolved_facts := resolved_facts results + 1\<rparr>"
  let ?miss = "results\<lparr>business_facts := business_facts results + 1,
                        unresolved_facts := unresolved_facts results + 1\<rparr>"
  from Cons.prems(1) consider
      (skip) "resolve_facts st concept_cache results rest = Inr (results', concept_cache')"
    | (hit) cache1 where "resolve_facts st cache1 ?hit rest = Inr (results', concept_cache')"
    | (miss) cache1 where "resolve_facts st cache1 ?miss rest = Inr (results', concept_cache')"
    unfolding f
    by (auto split: if_splits sum.splits prod.splits option.splits)
  then show ?case
  proof cases
    case skip
    from Cons.IH [OF skip Cons.prems(2)] show ?thesis by simp
  next
    case hit
    have "resolved_facts ?hit \<le> business_facts ?hit"
      using Cons.prems(2) by simp
    from Cons.IH [OF hit this] show ?thesis by simp
  next
    case miss
    have "resolved_facts ?miss \<le> business_facts ?miss"
      using Cons.prems(2) by simp
    from Cons.IH [OF miss this] show ?thesis by simp
  qed
qed

lemma example_cascade_unknown: "cascade example_store ''eba_met:q9'' = None"
proof -
  have clean: "clean_concept_name ''eba_met:q9'' = ''q9''"
    by (simp add: clean_concept_name_def has_colon_def after_first_colon_def)
  have exact: "search_by_exact_match example_store ''eba_met:q9'' = None"
    by (simp add: search_by_exact_match_def example_store_version example_store_simps
        Let_def fetch_def example_execute_def)
  have by_clean: "search_by_clean_name example_store ''q9'' = None"
    by (simp add: search_by_clean_name_def example_store_version example_store_simps
        Let_def fetch_def example_execute_def like_pattern_def)
  have variants: "search_by_prefix_variants example_store ''eba_met:q9'' = None"
    by (simp add: search_by_prefix_variants_def example_store_version example_store_simps
        Let_def fetch_def example_execute_def has_colon_def before_first_colon_def
        after_first_colon_def prefix_variants_def prefix_mappings_def)
  have partial: "search_by_partial_match example_store ''q9'' = None"
    by (simp add: search_by_partial_match_def example_store_version example_store_simps
        Let_def fetch_def example_execute_def like_pattern_def upper_def lower_def
        upper_char_def lower_char_def)
  have member: "search_in_member_table example_store ''eba_met:q9'' = None"
    by (simp add: search_in_member_table_def example_store_simps Let_def fetch_def
        example_execute_def clean like_pattern_def)
  show ?thesis
    unfolding cascade_def Let_def clean exact by_clean variants partial member
    by (simp add: or_else_def search_using_queries_manager_def)
qed

lemma example_business:
  "is_business_concept ''eba_met:mi53''
     (PList [PDict [(''prefix'', PStr ''eba_met''), (''value'', PStr ''100''),
                    (''is_business_concept'', PBool True)]]) = Inr True"
  "is_business_concept ''eba_GA:x1''
     (PDict [(''prefix'', PStr ''eba_GA''), (''value'', PStr ''ES'')]) = Inr True"
  "is_business_concept ''eba_met:q9''
     (PDict [(''prefix'', PStr ''eba_met''), (''value'', PStr ''7'')]) = Inr True"
  by (simp_all add: is_business_concept_def dict_get_default_def business_prefixes_def
      any_in_def lower_def lower_char_def)

lemma example_run:
  "\<exists>concept_cache'.
     resolve_facts example_store Map.empty
       \<lparr>business_facts = 0, resolved_facts = 0, unresolved_facts = 0\<rparr> example_facts
     = Inr (\<lparr>business_facts = 3, resolved_facts = 2, unresolved_facts = 1\<rparr>, concept_cache')"
  by (simp add: example_facts_def structural_elements_def example_business has_colon_def
      resolve_concept_from_dmp_def example_cascade_concept example_cascade_member
      example_cascade_unknown)

lemma example_rate: "resolution_rate_text 2 3 = Inr ''66.7%''"
proof -
  have "resolution_rate_text 2 3
         = Inr (show_nat (nat (round_half_even
                   (round_to_double (round_to_double (of_nat 2 / of_nat 3) * 100)
                      * 10)) div 10)
                @ ''.''
                @ show_nat (nat (round_half_even
                   (round_to_double (round_to_double (of_nat 2 / of_nat 3) * 100)
                      * 10)) mod 10)
                @ ''%'')"
    by (rule rate_text_value) simp_all
  also have "\<dots> = Inr ''66.7%''"
    by code_simp
  finally show ?thesis .
qed

text \<open>
  Claim C4, as stated: the reported rate equals resolved facts divided by business facts
  times 100, written with one decimal. With 23 of 80 business facts resolved the exact
  value is 28.75, which reads 28.8 with one decimal (rounding half up or half to even);
  the stage reports 28.7, since the double nearest to 23/80, times 100, is a double just
  below 28.75. With counts of thirteen digits the reported rate can also differ from the
  exact value by more than half a tenth.
\<close>

theorem resolution_rate_tie_counterexample:
  "resolution_rate_text 23 80 = Inr ''28.7%''
   \<and> spec_resolution_rate 23 80 = ''28.8%''
   \<and> resolution_rate_text 6560514081853 9697729611017 = Inr ''67.7%''
   \<and> spec_resolution_rate 6560514081853 9697729611017 = ''67.6%''"
proof -
  have "resolution_rate_text 23 80
         = Inr (show_nat (nat (round_half_even
                   (round_to_double (round_to_double (of_nat 23 / of_nat 80) * 100)
                      * 10)) div 10)
                @ ''.''
                @ show_nat (nat (round_half_even
                   (round_to_double (round_to_double (of_nat 23 / of_nat 80) * 100)
                      * 10)) mod 10)
                @ ''%'')"
    by (rule rate_text_value) simp_all
  also have "\<dots> = Inr ''28.7%''"
    by code_simp
  finally have code_small: "resolution_rate_text 23 80 = Inr ''28.7%''" .
  have "format_1f (Finite (23 / 80 * 100)) @ ''%'' = ''28.8%''"
    by code_simp
  then have spec_small: "spec_resolution_rate 23 80 = ''28.8%''"
    by (simp add: spec_resolution_rate_def)
  have "resolution_rate_text 6560514081853 9697729611017
         = Inr (show_nat (nat (round_half_even
                   (round_to_double (round_to_double
                      (of_nat 6560514081853 / of_nat 9697729611017) * 100)
                      * 10)) div 10)
                @ ''.''
                @ show_nat (nat (round_half_even
                   (round_to_double (round_to_double
                      (of_nat 6560514081853 / of_nat 9697729611017) * 100)
                      * 10)) mod 10)
                @ ''%'')"
    by (rule rate_text_value) simp_all
  also have "\<dots> = Inr (show_nat (nat (round_half_even
                   (round_to_double (round_to_double
                      (6560514081853 / 9697729611017) * 100)
                      * 10)) div 10)
                @ ''.''
                @ show_nat (nat (round_half_even
                   (round_to_double (round_to_double
                      (6560514081853 / 9697729611017) * 100)
                      * 10)) mod 10)
                @ ''%'')"
    by (simp only: of_nat_numeral)
  also have "\<dots> = Inr ''67.7%''"
    by code_simp
  finally have code_large:
    "resolution_rate_text 6560514081853 9697729611017 = Inr ''67.7%''" .
  have "format_1f (Finite (6560514081853 / 9697729611017 * 100)) @ ''%'' = ''67.6%''"
    by code_simp
  then have spec_large: "spec_resolution_rate 6560514081853 9697729611017 = ''67.6%''"
    by (simp add: spec_resolution_rate_def)
  from code_small spec_small code_large spec_large show ?thesis
    by (intro conjI)
qed

text \<open>
  Claim C4, amended. For every resolution run over fewer than \<open>2 ^ 40\<close> facts that
  returns, the reported rate is the text \<open>0%\<close> when there is no business fact; otherwise it
  is a number with exactly one decimal digit, followed by \<open>%\<close>, that differs from resolved
  facts divided by business facts times 100 by at most one twentieth: the exact value
  rounded to a nearest tenth, where a value halfway between two tenths may go either way.
\<close>

theorem resolution_rate_nearest_tenth:
  assumes run: "resolve_concepts_in_dmp st concept_cache facts = Inr (res, concept_cache')"
      and size: "length facts < 2 ^ 40"
  shows "(business_facts res = 0 \<longrightarrow> resolution_rate res = ''0%'')
       \<and> (0 < business_facts res \<longrightarrow>
            (\<exists>whole tenth. tenth < 10
               \<and> resolution_rate res = show_nat whole @ ''.'' @ show_nat tenth @ ''%''
               \<and> \<bar>of_nat whole + of_nat tenth / 10
                    - 100 * of_nat (resolved_facts res) / (of_nat (business_facts res) :: rat)\<bar>
                  \<le> 1 / 20))"
proof -
  from run obtain results rate where
    loop: "resolve_facts st concept_cache
             \<lparr>business_facts = 0, resolved_facts = 0, unresolved_facts = 0\<rparr> facts
           = Inr (results, concept_cache')" and
    rate: "resolution_rate_text (resolved_facts results) (business_facts results) = Inr rate" and
    res: "business_facts res = business_facts results"
         "resolved_facts res = resolved_facts results"
         "resolution_rate res = rate"
    unfolding resolve_concepts_in_dmp_def
    by (auto split: sum.splits prod.splits)
  from resolve_facts_counts [OF loop]
  have le: "resolved_facts results \<le> business_facts results"
    and bound: "business_facts results \<le> length facts"
    by simp_all
  from bound size have small: "business_facts results < 2 ^ 40"
    by (rule le_less_trans)
  have zero: "business_facts res = 0 \<longrightarrow> resolution_rate res = ''0%''"
  proof
    assume "business_facts res = 0"
    with rate show "resolution_rate res = ''0%''"
      unfolding res by (simp add: resolution_rate_text_def)
  qed
  have pos: "0 < business_facts res \<longrightarrow>
            (\<exists>whole tenth. tenth < 10
               \<and> resolution_rate res = show_nat whole @ ''.'' @ show_nat tenth @ ''%''
               \<and> \<bar>of_nat whole + of_nat tenth / 10
                    - 100 * of_nat (resolved_facts res) / (of_nat (business_facts res) :: rat)\<bar>
                  \<le> 1 / 20)"
  proof
    assume "0 < business_facts res"
    then have "0 < business_facts results"
      by (simp only: res)
    from rate_text_spec [OF this le small] obtain whole tenth where
      digit: "tenth < 10" and
      shown: "resolution_rate_text (resolved_facts results) (business_facts results)
               = Inr (show_nat whole @ ''.'' @ show_nat tenth @ ''%'')" and
      near: "\<bar>of_nat whole + of_nat tenth / 10
              - 100 * of_nat (resolved_facts results) / (of_nat (business_facts results) :: rat)\<bar>
             \<le> 1 / 20"
      by blast
    from shown rate have "rate = show_nat whole @ ''.'' @ show_nat tenth @ ''%''"
      by (simp only: sum.inject)
    with digit near show "\<exists>whole tenth. tenth < 10
               \<and> resolution_rate res = show_nat whole @ ''.'' @ show_nat tenth @ ''%''
               \<and> \<bar>of_nat whole + of_nat tenth / 10
                    - 100 * of_nat (resolved_facts res) / (of_nat (business_facts res) :: rat)\<bar>
                  \<le> 1 / 20"
      unfolding res by (intro exI conjI)
  qed
  from zero pos show ?thesis by (rule conjI)
qed

theorem resolution_rate_nearest_tenth_witness:
  "map_sum id fst (resolve_concepts_in_dmp example_store Map.empty example_facts)
     = Inr \<lparr>business_facts = 3, resolved_facts = 2, unresolved_facts = 1,
            total_facts = 4, resolution_rate = ''66.7%''\<rparr>
   \<and> length example_facts < 2 ^ 40
   \<and> (\<exists>whole tenth. tenth < 10
         \<and> ''66.7%'' = show_nat whole @ ''.'' @ show_nat tenth @ ''%''
         \<and> \<bar>of_nat whole + of_nat tenth / 10 - (200 / 3 :: rat)\<bar> \<le> 1 / 20)"
proof -
  let ?res = "\<lparr>business_facts = 3, resolved_facts = 2, unresolved_facts = 1,
               total_facts = 4, resolution_rate = ''66.7%''\<rparr>"
  from example_run obtain concept_cache' where
    loop: "resolve_facts example_store Map.empty
             \<lparr>business_facts = 0, resolved_facts = 0, unresolved_facts = 0\<rparr> example_facts
           = Inr (\<lparr>business_facts = 3, resolved_facts = 2, unresolved_facts = 1\<rparr>,
                  concept_cache')"
    by (rule exE)
  have len: "length example_facts = 4"
    by (simp add: example_facts_def)
  have run: "resolve_concepts_in_dmp example_store Map.empty example_facts
      = Inr (?res, concept_cache')"
    unfolding resolve_concepts_in_dmp_def loop len by (simp add: example_rate)
  have size: "length example_facts < 2 ^ 40"
    unfolding len by simp
  from resolution_rate_nearest_tenth [OF run size]
  have "\<exists>whole tenth. tenth < 10
         \<and> ''66.7%'' = show_nat whole @ ''.'' @ show_nat tenth @ ''%''
         \<and> \<bar>of_nat whole + of_nat tenth / 10 - (200 / 3 :: rat)\<bar> \<le> 1 / 20"
    by (simp del: show_nat.simps)
  moreover have "map_sum id fst (resolve_concepts_in_dmp example_store Map.empty example_facts)
      = Inr ?res"
    unfolding run by simp
  ultimately show ?thesis
    using size by (intro conjI)
qed

end
